theory Spec2Isabelle
  imports Complex_Main "HOL-Library.Sublist"
begin

section \<open>JavaScript strings\<close>

text \<open>
  A JavaScript string is modelled as a \<^typ>\<open>string\<close> whose characters are the code units
  below 256 (the Latin-1 range). The string methods used by \<^verbatim>\<open>operateIdAssembly.js\<close>
  are defined on that range as the language defines them.
\<close>

definition is_upper :: "char \<Rightarrow> bool" where
  \<comment> \<open>the code units that \<^verbatim>\<open>toLowerCase\<close> changes: A-Z, and U+00C0 to U+00DE without U+00D7\<close>
  "is_upper c = (let n = (of_char c :: nat) in
     (65 \<le> n \<and> n \<le> 90) \<or> (192 \<le> n \<and> n \<le> 222 \<and> n \<noteq> 215))"

definition toLowerCase_char :: "char \<Rightarrow> char" where
  "toLowerCase_char c = (if is_upper c then char_of (of_char c + (32::nat)) else c)"

definition toLowerCase :: "string \<Rightarrow> string" where
  "toLowerCase s = map toLowerCase_char s"

definition isWhiteSpace :: "char \<Rightarrow> bool" where
  \<comment> \<open>what \<^verbatim>\<open>trim\<close> removes: TAB, LF, VT, FF, CR, SP and the no-break space\<close>
  "isWhiteSpace c = ((of_char c :: nat) \<in> {9, 10, 11, 12, 13, 32, 160})"

definition trim :: "string \<Rightarrow> string" where
  "trim s = rev (dropWhile isWhiteSpace (rev (dropWhile isWhiteSpace s)))"

definition startsWith :: "string \<Rightarrow> string \<Rightarrow> bool" where
  "startsWith s p = prefix p s"

fun includes_str :: "string \<Rightarrow> string \<Rightarrow> bool" where
  \<comment> \<open>\<^verbatim>\<open>s.includes(p)\<close>: \<open>p\<close> occurs in \<open>s\<close> at some position\<close>
  "includes_str [] p = (p = [])"
| "includes_str (c # cs) p = (prefix p (c # cs) \<or> includes_str cs p)"

definition substring_from :: "string \<Rightarrow> nat \<Rightarrow> string" where
  \<comment> \<open>\<^verbatim>\<open>s.substring(n)\<close>\<close>
  "substring_from s n = drop n s"

fun split :: "string \<Rightarrow> char \<Rightarrow> string list" where
  \<comment> \<open>\<^verbatim>\<open>s.split(sep)\<close> for a separator of one character; the result is never empty\<close>
  "split [] sep = [[]]"
| "split (c # cs) sep =
     (if c = sep then [] # split cs sep
      else (case split cs sep of [] \<Rightarrow> [[c]] | p # ps \<Rightarrow> (c # p) # ps))"

fun join :: "string list \<Rightarrow> string \<Rightarrow> string" where
  \<comment> \<open>\<^verbatim>\<open>arr.join(sep)\<close> on an array of strings\<close>
  "join [] sep = []"
| "join [p] sep = p"
| "join (p # q # ps) sep = p @ sep @ join (q # ps) sep"

definition strip_trailing_slashes :: "string \<Rightarrow> string" where
  \<comment> \<open>\<^verbatim>\<open>url.replace(/\/+$/, '')\<close>: the only match is the maximal run of slashes at the end\<close>
  "strip_trailing_slashes s = rev (dropWhile (\<lambda>c. c = CHR ''/'') (rev s))"

fun replace_first :: "string \<Rightarrow> string \<Rightarrow> string \<Rightarrow> string" where
  \<comment> \<open>\<^verbatim>\<open>s.replace(pat, rep)\<close> with a string pattern: only the first occurrence is replaced\<close>
  "replace_first [] pat rep = (if pat = [] then rep else [])"
| "replace_first (c # cs) pat rep =
     (if prefix pat (c # cs) then rep @ drop (length pat) (c # cs)
      else c # replace_first cs pat rep)"

definition js_str :: "string option \<Rightarrow> string" where
  \<comment> \<open>string concatenation converts \<^verbatim>\<open>undefined\<close> (here \<open>None\<close>) to the text "undefined"\<close>
  "js_str v = (case v of None \<Rightarrow> ''undefined'' | Some s \<Rightarrow> s)"


section \<open>NetworkNameServiceClass\<close>

record NetworkNameServiceClass =
  currentNetwork :: string

definition new_NetworkNameServiceClass :: NetworkNameServiceClass where
  "new_NetworkNameServiceClass = \<lparr>currentNetwork = ''mainnet''\<rparr>"

definition currentNetworkName :: "NetworkNameServiceClass \<Rightarrow> string" where
  "currentNetworkName ns = currentNetwork ns"

definition switchNetworkName :: "string \<Rightarrow> NetworkNameServiceClass \<Rightarrow> NetworkNameServiceClass" where
  "switchNetworkName networkName ns = ns\<lparr>currentNetwork := networkName\<rparr>"


section \<open>IdentityFormatterClass\<close>

definition formatIdentity :: "string \<Rightarrow> string" where
  "formatIdentity identityUrl =
     (if identityUrl = [] then identityUrl
      else let u1 = toLowerCase identityUrl;
               u2 = (if \<not> includes_str u1 ''acc://'' then ''acc://'' @ u1 else u1);
               u3 = (if \<not> includes_str u2 ''.acme'' then u2 @ ''.acme'' else u2)
           in u3)"


section \<open>AdiStringHelper\<close>

record adi =
  url :: string
  path :: string
  name :: string
  rootUrl :: string
  subPath :: string

definition fixAdiUrl :: "string \<Rightarrow> string" where
  "fixAdiUrl u = (if u = [] then u else strip_trailing_slashes (toLowerCase u))"

definition parseAdi2 :: "string \<Rightarrow> adi option" where
  \<comment> \<open>\<open>None\<close> is the \<^verbatim>\<open>null\<close> the source returns\<close>
  "parseAdi2 adiUrl =
     (if adiUrl = [] \<or> trim adiUrl = [] then None
      else let u1 = fixAdiUrl adiUrl;
               u2 = (if \<not> startsWith u1 ''acc://'' then ''acc://'' @ u1 else u1);
               pth = substring_from u2 6;
               arr1 = split pth CHR ''.'';
               nm = hd arr1;
               arr_remaining = (if 1 < length arr1 \<and> arr1 ! 1 \<noteq> [] then arr1 ! 1 else [])
           in Some \<lparr>url = u2, path = pth, name = nm,
                     rootUrl = ''acc://'' @ nm @ ''.acme'',
                     subPath = (if 5 < length arr_remaining
                                then substring_from arr_remaining 5 else [])\<rparr>)"


section \<open>AdiUrlClass\<close>

record AdiUrlClass =
  adi_url :: "string option"
  adiParsed :: "adi option"
  adi_name :: "string option"
  adi_path :: "string option"
  pathEnd :: string
  networkName :: string
  serverName :: string

definition calc_Server :: "NetworkNameServiceClass \<Rightarrow> AdiUrlClass \<Rightarrow> AdiUrlClass" where
  "calc_Server ns a =
     (let n = currentNetworkName ns
      in a\<lparr>networkName := n, serverName := (if n = ''mainnet'' then [] else n)\<rparr>)"

definition new_AdiUrlClass :: "NetworkNameServiceClass \<Rightarrow> AdiUrlClass" where
  \<comment> \<open>the constructor; a field not yet assigned is \<^verbatim>\<open>undefined\<close>\<close>
  "new_AdiUrlClass ns =
     calc_Server ns \<lparr>adi_url = None, adiParsed = None, adi_name = None, adi_path = None,
                     pathEnd = [], networkName = [], serverName = []\<rparr>"

definition init_ByAdiUrl :: "string \<Rightarrow> AdiUrlClass \<Rightarrow> AdiUrlClass" where
  "init_ByAdiUrl u a =
     (let a1 = a\<lparr>adi_url := Some u, adiParsed := parseAdi2 u\<rparr>
      in case adiParsed a1 of
           None \<Rightarrow> a1
         | Some p \<Rightarrow> a1\<lparr>adi_name := Some (name p), adi_path := Some (path p),
                         pathEnd := subPath p\<rparr>)"

definition createByUrl :: "NetworkNameServiceClass \<Rightarrow> string \<Rightarrow> AdiUrlClass" where
  "createByUrl ns u = init_ByAdiUrl u (new_AdiUrlClass ns)"

definition calculate_app_Url ::
  "NetworkNameServiceClass \<Rightarrow> string \<Rightarrow> AdiUrlClass \<Rightarrow> string \<times> AdiUrlClass" where
  \<comment> \<open>returns the URL and the object, whose network fields the call has refreshed\<close>
  "calculate_app_Url ns appSite a =
     (let a1 = calc_Server ns a
      in (''https://'' @ js_str (adi_name a1) @ ''.'' @ appSite @ ''/'' @ pathEnd a1
            @ ''?current-network='' @ networkName a1, a1))"

definition qoboto_Url :: "NetworkNameServiceClass \<Rightarrow> AdiUrlClass \<Rightarrow> string \<times> AdiUrlClass" where
  "qoboto_Url ns a = calculate_app_Url ns ''Qoboto.com'' a"

definition bankOnLedger_Url :: "NetworkNameServiceClass \<Rightarrow> AdiUrlClass \<Rightarrow> string \<times> AdiUrlClass" where
  "bankOnLedger_Url ns a = calculate_app_Url ns ''BankOnLedger.com'' a"


section \<open>OpIdInfoClass and its factory\<close>

record OpIdInfoClass =
  identityTrain :: string
  identityName :: string
  identityUrl :: string
  adiInfo :: AdiUrlClass

definition isLineTerminator :: "char \<Rightarrow> bool" where
  \<comment> \<open>the characters that \<^verbatim>\<open>.\<close> of a regular expression does not match\<close>
  "isLineTerminator c = (c = CHR 0x0A \<or> c = CHR 0x0D)"

definition match_identity :: "string \<Rightarrow> (string \<times> string option) option" where
  \<comment> \<open>\<^verbatim>\<open>s.match(/^acc:\/\/([^\/\.]+)\.acme(?:\/(.*))?$/)\<close>: the two groups of the match.
      The first group is the maximal run without slash and dot, which must not be empty
      and is followed by ".acme"; what follows is nothing, or a slash and a rest without
      line terminator.\<close>
  "match_identity s =
     (if \<not> prefix ''acc://'' s then None
      else let t = drop 6 s;
               g1 = takeWhile (\<lambda>c. c \<noteq> CHR ''/'' \<and> c \<noteq> CHR ''.'') t;
               r = dropWhile (\<lambda>c. c \<noteq> CHR ''/'' \<and> c \<noteq> CHR ''.'') t
           in if g1 = [] then None
              else if \<not> prefix ''.acme'' r then None
              else (case drop 5 r of
                      [] \<Rightarrow> Some (g1, None)
                    | c # g2 \<Rightarrow>
                        if c = CHR ''/'' \<and> \<not> list_ex isLineTerminator g2
                        then Some (g1, Some g2) else None))"

definition OpIdInfoFactory_createByIdentityUrl ::
  "NetworkNameServiceClass \<Rightarrow> string \<Rightarrow> OpIdInfoClass option" where
  \<comment> \<open>\<open>None\<close> is the \<^verbatim>\<open>null\<close> returned when the pattern does not match\<close>
  "OpIdInfoFactory_createByIdentityUrl ns identityUrl0 =
     (let u = formatIdentity identityUrl0
      in case match_identity u of
           None \<Rightarrow> None
         | Some (g1, g2) \<Rightarrow>
             let pth = (case g2 of None \<Rightarrow> [] | Some p \<Rightarrow> p);
                 train = join (g1 # filter (\<lambda>p. p \<noteq> []) (split pth CHR ''/'')) ''.''
             in Some \<lparr>identityTrain = train, identityName = g1, identityUrl = u,
                       adiInfo = createByUrl ns u\<rparr>)"

definition OpIdInfoFactory_createByIdentityName ::
  "NetworkNameServiceClass \<Rightarrow> string \<Rightarrow> OpIdInfoClass" where
  "OpIdInfoFactory_createByIdentityName ns nm =
     (let u = formatIdentity nm
      in \<lparr>identityTrain = nm, identityName = nm, identityUrl = u,
          adiInfo = createByUrl ns u\<rparr>)"


section \<open>JSON values\<close>

text \<open>
  The values that \<^verbatim>\<open>JSON.parse\<close> produces. An object is the list of its own
  properties; \<^verbatim>\<open>null\<close> is \<open>JNull\<close>, and \<^verbatim>\<open>undefined\<close> is the \<open>None\<close> of an option.
\<close>

datatype json =
    JNull
  | JBool bool
  | JNum real
  | JStr string
  | JArr "json list"
  | JObj "(string \<times> json) list"

datatype js_error = TypeError

fun truthy :: "json \<Rightarrow> bool" where
  "truthy JNull = False"
| "truthy (JBool b) = b"
| "truthy (JNum x) = (x \<noteq> 0)"
| "truthy (JStr s) = (s \<noteq> [])"
| "truthy (JArr xs) = True"
| "truthy (JObj fs) = True"

definition truthy_value :: "json option \<Rightarrow> json option" where
  \<comment> \<open>the value of a property when it is truthy; an absent property is \<^verbatim>\<open>undefined\<close>\<close>
  "truthy_value p = (case p of None \<Rightarrow> None | Some v \<Rightarrow> if truthy v then Some v else None)"

definition get_prop :: "json \<Rightarrow> string \<Rightarrow> json option" where
  \<comment> \<open>\<^verbatim>\<open>v?.k\<close> for a key \<open>k\<close> that no prototype defines (\<^verbatim>\<open>name\<close>, \<^verbatim>\<open>logoUrl\<close>, ...):
      the own property of an object, \<^verbatim>\<open>undefined\<close> on every other value\<close>
  "get_prop v k = (case v of JObj fs \<Rightarrow> map_of fs k | _ \<Rightarrow> None)"

definition or_null :: "json option \<Rightarrow> json" where
  \<comment> \<open>\<^verbatim>\<open>x || null\<close>\<close>
  "or_null p = (case truthy_value p of None \<Rightarrow> JNull | Some v \<Rightarrow> v)"

fun toString_ok :: "json \<Rightarrow> bool" where
  \<comment> \<open>whether the conversion to a string, as a template literal and \<^verbatim>\<open>join\<close> perform it,
      completes; otherwise it raises a TypeError. An object with an own property
      \<^verbatim>\<open>toString\<close> has no callable conversion method left (no JSON value is callable, and
      the inherited \<^verbatim>\<open>valueOf\<close> returns the object); an array converts its elements.\<close>
  "toString_ok (JObj fs) = (map_of fs ''toString'' = None)"
| "toString_ok (JArr xs) = list_all toString_ok xs"
| "toString_ok v = True"

definition toString_ok_opt :: "json option \<Rightarrow> bool" where
  "toString_ok_opt p = (case p of None \<Rightarrow> True | Some v \<Rightarrow> toString_ok v)"


section \<open>The environment of QobotoApiService\<close>

text \<open>
  What the platform supplies is a parameter of the model: the value of each call of
  \<^verbatim>\<open>Date.now()\<close>, the outcome of each call of \<^verbatim>\<open>fetch\<close>, \<^verbatim>\<open>JSON.parse\<close> and
  \<^verbatim>\<open>encodeURIComponent\<close>. The mutable state is threaded through every call: the
  service object, the number of clock reads and the URLs requested so far. An
  \<^verbatim>\<open>async\<close> method is modelled as running to completion.
\<close>

record response =
  ok :: bool
  response_text :: "string option"  \<comment> \<open>\<open>None\<close>: \<^verbatim>\<open>response.text()\<close> rejects\<close>

record env =
  Date_now :: "nat \<Rightarrow> int"  \<comment> \<open>the value of the n-th call\<close>
  fetch :: "nat \<Rightarrow> string \<Rightarrow> response option"  \<comment> \<open>the n-th request; \<open>None\<close>: it rejects\<close>
  JSON_parse :: "string \<Rightarrow> json option"  \<comment> \<open>\<open>None\<close>: a SyntaxError\<close>
  encodeURIComponent :: "string \<Rightarrow> string"  \<comment> \<open>total: no code unit below 256 is a surrogate\<close>

record cache_entry =
  data :: json
  timestamp :: int

record QobotoApiService =
  baseUrl :: string
  cache :: "string \<rightharpoonup> cache_entry"

record world =
  api :: QobotoApiService  \<comment> \<open>the global \<^verbatim>\<open>qobotoApiService\<close>\<close>
  clock_reads :: nat
  requests :: "string list"

definition cacheTimeout :: int where
  "cacheTimeout = 5 * 60 * 1000"

definition new_QobotoApiService :: QobotoApiService where
  "new_QobotoApiService = \<lparr>baseUrl = ''https://localhost:7033'', cache = Map.empty\<rparr>"

definition call_Date_now :: "env \<Rightarrow> world \<Rightarrow> int \<times> world" where
  "call_Date_now e w = (Date_now e (clock_reads w), w\<lparr>clock_reads := Suc (clock_reads w)\<rparr>)"

definition call_fetch :: "env \<Rightarrow> string \<Rightarrow> world \<Rightarrow> response option \<times> world" where
  "call_fetch e apiUrl w =
     (fetch e (length (requests w)) apiUrl, w\<lparr>requests := requests w @ [apiUrl]\<rparr>)"

definition set_cache :: "(string \<rightharpoonup> cache_entry) \<Rightarrow> world \<Rightarrow> world" where
  "set_cache c w = w\<lparr>api := (api w)\<lparr>cache := c\<rparr>\<rparr>"


section \<open>QobotoApiService\<close>

text \<open>
  Console output is not modelled, but the conversions to a string that the logging
  statements perform on response data are, since they raise a TypeError where
  \<^const>\<open>toString_ok\<close> fails. The debug and development switches change only console
  output and \<^verbatim>\<open>getIdentityDataWithMock\<close>, which no modelled method calls.
\<close>

definition cleanText :: "json \<Rightarrow> json" where
  \<comment> \<open>of the characters replaced by \<^verbatim>\<open>_cleanText\<close> only the no-break space U+00A0 is a
      code unit below 256\<close>
  "cleanText v =
     (case v of
        JStr s \<Rightarrow>
          if s = [] then v
          else JStr (trim (map (\<lambda>c. if c = CHR 0xA0 then CHR '' '' else c) s))
      | _ \<Rightarrow> v)"

definition setBaseUrl :: "string \<Rightarrow> world \<Rightarrow> world" where
  "setBaseUrl b w = w\<lparr>api := (api w)\<lparr>baseUrl := b\<rparr>\<rparr>"

definition isMain :: "json \<Rightarrow> bool" where
  \<comment> \<open>\<^verbatim>\<open>item && item.name === 'main'\<close>\<close>
  "isMain item = (truthy item \<and> get_prop item ''name'' = Some (JStr ''main''))"

fun find_main :: "json list \<Rightarrow> js_error + json option" where
  \<comment> \<open>\<^verbatim>\<open>responseData.find(item => ...)\<close> with the callback of \<^verbatim>\<open>_findMainSection\<close>, whose
      debug line converts \<^verbatim>\<open>item?.name\<close> to a string at every item it visits\<close>
  "find_main [] = Inr None"
| "find_main (item # items) =
     (if \<not> toString_ok_opt (get_prop item ''name'') then Inl TypeError
      else if isMain item then Inr (Some item)
      else find_main items)"

definition availableName :: "json \<Rightarrow> json" where
  \<comment> \<open>\<^verbatim>\<open>item?.name || 'unnamed'\<close>\<close>
  "availableName item =
     (case truthy_value (get_prop item ''name'') of None \<Rightarrow> JStr ''unnamed'' | Some n \<Rightarrow> n)"

definition findMainSection :: "json \<Rightarrow> js_error + json" where
  "findMainSection responseData =
     (case responseData of
        JObj fs \<Rightarrow>
          if get_prop responseData ''name'' = Some (JStr ''main'') then Inr responseData
          else Inr responseData
      | JArr items \<Rightarrow>
          (case find_main items of
             Inl err \<Rightarrow> Inl err
           | Inr (Some mainSection) \<Rightarrow> Inr mainSection
           | Inr None \<Rightarrow>
               if items \<noteq> [] \<and> \<not> list_all (\<lambda>item. toString_ok (availableName item)) items
               then Inl TypeError
               else Inr JNull)
      | _ \<Rightarrow> Inr JNull)"

definition cache_lookup :: "env \<Rightarrow> string \<Rightarrow> world \<Rightarrow> json option \<times> world" where
  \<comment> \<open>the cache check that opens \<^verbatim>\<open>getIdentityData\<close>: \<open>Some\<close> is the early return of the
      cached data, \<open>None\<close> falls through to the request\<close>
  "cache_lookup e cacheKey w =
     (case cache (api w) cacheKey of
        None \<Rightarrow> (None, w)
      | Some cached \<Rightarrow>
          let (now, w1) = call_Date_now e w
          in if now - timestamp cached < cacheTimeout then (Some (data cached), w1)
             else (None, set_cache ((cache (api w1))(cacheKey := None)) w1))"

definition cache_store :: "env \<Rightarrow> string \<Rightarrow> json \<Rightarrow> world \<Rightarrow> world" where
  \<comment> \<open>\<^verbatim>\<open>this.cache.set(cacheKey, {data: mainData, timestamp: Date.now()})\<close>\<close>
  "cache_store e cacheKey mainData w =
     (let (now, w1) = call_Date_now e w
      in set_cache ((cache (api w1))(cacheKey \<mapsto> \<lparr>data = mainData, timestamp = now\<rparr>)) w1)"

definition parse_response :: "env \<Rightarrow> string \<Rightarrow> json option" where
  \<comment> \<open>the two \<^verbatim>\<open>JSON.parse\<close> steps of \<^verbatim>\<open>getIdentityData\<close>: a response that is a JSON
      string is parsed once more; \<open>None\<close> where the source returns \<^verbatim>\<open>null\<close>\<close>
  "parse_response e responseText =
     (case JSON_parse e responseText of
        None \<Rightarrow> None
      | Some (JStr s) \<Rightarrow> JSON_parse e s
      | Some v \<Rightarrow> Some v)"

definition getIdentityData :: "env \<Rightarrow> string \<Rightarrow> world \<Rightarrow> json \<times> world" where
  \<comment> \<open>never raises: every exception of the request and of the selection is caught and
      gives \<^verbatim>\<open>null\<close>\<close>
  "getIdentityData e idUrl w =
     (let cacheKey = ''qoboto_'' @ idUrl
      in case cache_lookup e cacheKey w of
           (Some d, w0) \<Rightarrow> (d, w0)
         | (None, w0) \<Rightarrow>
             (let apiUrl = baseUrl (api w0) @ ''/api/v1/Qoboto/GetDataValue/All?DataAccountUrl=''
                             @ encodeURIComponent e idUrl;
                  (resp, w1) = call_fetch e apiUrl w0
              in (case resp of
                    None \<Rightarrow> (JNull, w1)
                  | Some r \<Rightarrow>
                      if \<not> ok r then (JNull, w1)
                      else (case response_text r of
                              None \<Rightarrow> (JNull, w1)
                            | Some responseText \<Rightarrow>
                                (case parse_response e responseText of
                                   None \<Rightarrow> (JNull, w1)
                                 | Some responseData \<Rightarrow>
                                     (case findMainSection responseData of
                                        Inl err \<Rightarrow> (JNull, w1)
                                      | Inr mainData \<Rightarrow>
                                          if \<not> truthy mainData then (JNull, w1)
                                          else (mainData,
                                                cache_store e cacheKey mainData w1)))))))"

definition api_getLogoUrl :: "env \<Rightarrow> string \<Rightarrow> world \<Rightarrow> (js_error + json) \<times> world" where
  \<comment> \<open>\<^verbatim>\<open>QobotoApiService.getLogoUrl\<close>; its debug line converts the value to a string\<close>
  "api_getLogoUrl e idUrl w =
     (let (d, w1) = getIdentityData e idUrl w;
          v = or_null (get_prop d ''logoUrl'')
      in if \<not> toString_ok v then (Inl TypeError, w1) else (Inr v, w1))"

definition api_getSectionMain1Description ::
  "env \<Rightarrow> string \<Rightarrow> world \<Rightarrow> (js_error + json) \<times> world" where
  \<comment> \<open>\<^verbatim>\<open>QobotoApiService.getSectionMain1Description\<close>; its debug line calls
      \<^verbatim>\<open>cleanedDescription?.substring(0, 100)\<close>, which only \<^verbatim>\<open>null\<close> and a string survive\<close>
  "api_getSectionMain1Description e idUrl w =
     (let (d, w1) = getIdentityData e idUrl w;
          rawDescription = or_null (get_prop d ''sectionMain1Description'');
          cleanedDescription = (if truthy rawDescription then cleanText rawDescription else JNull)
      in case cleanedDescription of
           JNull \<Rightarrow> (Inr cleanedDescription, w1)
         | JStr s \<Rightarrow> (Inr cleanedDescription, w1)
         | _ \<Rightarrow> (Inl TypeError, w1))"

definition api_getSectionMain1Background2ImageUrl ::
  "env \<Rightarrow> string \<Rightarrow> world \<Rightarrow> json \<times> world" where
  \<comment> \<open>\<^verbatim>\<open>QobotoApiService.getSectionMain1Background2ImageUrl\<close>; nothing in it can raise\<close>
  "api_getSectionMain1Background2ImageUrl e idUrl w =
     (let (d, w1) = getIdentityData e idUrl w
      in (or_null (get_prop d ''sectionMain1Background2ImageUrl''), w1))"

record MainData =
  md_logoUrl :: json
  md_sectionMain1Description :: json
  md_sectionMain1Background2ImageUrl :: json
  md_rawData :: json

definition api_getAllMainData :: "env \<Rightarrow> string \<Rightarrow> world \<Rightarrow> MainData \<times> world" where
  \<comment> \<open>\<^verbatim>\<open>QobotoApiService.getAllMainData\<close>; nothing in it can raise\<close>
  "api_getAllMainData e idUrl w =
     (let (d, w1) = getIdentityData e idUrl w;
          rawDescription = or_null (get_prop d ''sectionMain1Description'');
          cleanedDescription = (if truthy rawDescription then cleanText rawDescription else JNull)
      in (\<lparr>md_logoUrl = or_null (get_prop d ''logoUrl''),
           md_sectionMain1Description = cleanedDescription,
           md_sectionMain1Background2ImageUrl =
             or_null (get_prop d ''sectionMain1Background2ImageUrl''),
           md_rawData = d\<rparr>, w1))"

definition api_clearCache :: "string option \<Rightarrow> world \<Rightarrow> world" where
  \<comment> \<open>\<^verbatim>\<open>QobotoApiService.clearCache(identityUrl = null)\<close>; an empty string is falsy too\<close>
  "api_clearCache idUrl w =
     (case idUrl of
        None \<Rightarrow> set_cache Map.empty w
      | Some u \<Rightarrow>
          if u \<noteq> [] then set_cache ((cache (api w))(''qoboto_'' @ u := None)) w
          else set_cache Map.empty w)"


section \<open>OpIdResourceClass\<close>

record OpIdResourceClass =
  opIdInfo :: OpIdInfoClass
  dataCache :: "string \<rightharpoonup> json"
  customOverrides :: "string \<rightharpoonup> json"

definition new_OpIdResourceClass :: "OpIdInfoClass \<Rightarrow> OpIdResourceClass" where
  "new_OpIdResourceClass info =
     \<lparr>opIdInfo = info, dataCache = Map.empty, customOverrides = Map.empty\<rparr>"

definition getSimpleIdentityUrl :: "OpIdResourceClass \<Rightarrow> string" where
  "getSimpleIdentityUrl r = replace_first (identityUrl (opIdInfo r)) ''acc://'' []"

definition memoize :: "string \<Rightarrow> json \<Rightarrow> OpIdResourceClass \<Rightarrow> OpIdResourceClass" where
  \<comment> \<open>\<^verbatim>\<open>this._dataCache[k] = v\<close>\<close>
  "memoize k v r = r\<lparr>dataCache := (dataCache r)(k \<mapsto> v)\<rparr>"

definition defaultLogoUrl :: string where
  "defaultLogoUrl = ''https://pub-1c0e543900fc40318aa4c4aec39fb352.r2.dev/logo.png''"

definition defaultDescription :: "OpIdResourceClass \<Rightarrow> string" where
  "defaultDescription r =
     ''Welcome to '' @ identityName (opIdInfo r) @ [CHR 0x27] @ ''s digital identity dashboard.''"

definition defaultBackgroundUrl :: string where
  "defaultBackgroundUrl =
     ''https://images.unsplash.com/photo-1557804506-669a67965ba0?ixlib=rb-4.0.3&auto=format&fit=crop&w=1074&q=80''"

definition logoUrl ::
  "env \<Rightarrow> OpIdResourceClass \<Rightarrow> world \<Rightarrow> json \<times> OpIdResourceClass \<times> world" where
  "logoUrl e r w =
     (case truthy_value (customOverrides r ''logoUrl'') of
        Some v \<Rightarrow> (v, r, w)
      | None \<Rightarrow>
          (case truthy_value (dataCache r ''logoUrl'') of
             Some v \<Rightarrow> (v, r, w)
           | None \<Rightarrow>
               (let (res, w1) = api_getLogoUrl e (getSimpleIdentityUrl r) w;
                    fallback = (JStr defaultLogoUrl, memoize ''logoUrl'' (JStr defaultLogoUrl) r, w1)
                in (case res of
                      Inl err \<Rightarrow> fallback
                    | Inr v \<Rightarrow> if truthy v then (v, memoize ''logoUrl'' v r, w1) else fallback))))"

definition sectionMain1Description ::
  "env \<Rightarrow> OpIdResourceClass \<Rightarrow> world \<Rightarrow> json \<times> OpIdResourceClass \<times> world" where
  "sectionMain1Description e r w =
     (case truthy_value (customOverrides r ''sectionMain1Description'') of
        Some v \<Rightarrow> (v, r, w)
      | None \<Rightarrow>
          (case truthy_value (dataCache r ''sectionMain1Description'') of
             Some v \<Rightarrow> (v, r, w)
           | None \<Rightarrow>
               (let (res, w1) = api_getSectionMain1Description e (getSimpleIdentityUrl r) w;
                    fallback = (JStr (defaultDescription r),
                                memoize ''sectionMain1Description'' (JStr (defaultDescription r)) r,
                                w1)
                in (case res of
                      Inl err \<Rightarrow> fallback
                    | Inr v \<Rightarrow>
                        if truthy v then (v, memoize ''sectionMain1Description'' v r, w1)
                        else fallback))))"

definition sectionMain1Background2ImageUrl ::
  "env \<Rightarrow> OpIdResourceClass \<Rightarrow> world \<Rightarrow> json \<times> OpIdResourceClass \<times> world" where
  \<comment> \<open>the service method called here cannot raise, so the \<^verbatim>\<open>catch\<close> has no branch\<close>
  "sectionMain1Background2ImageUrl e r w =
     (case truthy_value (customOverrides r ''sectionMain1Background2ImageUrl'') of
        Some v \<Rightarrow> (v, r, w)
      | None \<Rightarrow>
          (case truthy_value (dataCache r ''sectionMain1Background2ImageUrl'') of
             Some v \<Rightarrow> (v, r, w)
           | None \<Rightarrow>
               (let (v, w1) =
                      api_getSectionMain1Background2ImageUrl e (getSimpleIdentityUrl r) w
                in if truthy v then (v, memoize ''sectionMain1Background2ImageUrl'' v r, w1)
                   else (JStr defaultBackgroundUrl,
                         memoize ''sectionMain1Background2ImageUrl'' (JStr defaultBackgroundUrl) r,
                         w1))))"

definition getAllMainData ::
  "env \<Rightarrow> OpIdResourceClass \<Rightarrow> world \<Rightarrow> MainData \<times> OpIdResourceClass \<times> world" where
  \<comment> \<open>\<^verbatim>\<open>OpIdResourceClass.getAllMainData\<close>; nothing inside its \<^verbatim>\<open>try\<close> can raise, so the
      \<^verbatim>\<open>catch\<close> has no branch\<close>
  "getAllMainData e r w =
     (let (allData, w1) = api_getAllMainData e (getSimpleIdentityUrl r) w;
          r1 = (if truthy (md_logoUrl allData)
                then memoize ''logoUrl'' (md_logoUrl allData) r else r);
          r2 = (if truthy (md_sectionMain1Description allData)
                then memoize ''sectionMain1Description'' (md_sectionMain1Description allData) r1
                else r1);
          r3 = (if truthy (md_sectionMain1Background2ImageUrl allData)
                then memoize ''sectionMain1Background2ImageUrl''
                       (md_sectionMain1Background2ImageUrl allData) r2
                else r2);
          (v1, r4, w2) = (if truthy (md_logoUrl allData) then (md_logoUrl allData, r3, w1)
                          else logoUrl e r3 w1);
          (v2, r5, w3) = (if truthy (md_sectionMain1Description allData)
                          then (md_sectionMain1Description allData, r4, w2)
                          else sectionMain1Description e r4 w2);
          (v3, r6, w4) = (if truthy (md_sectionMain1Background2ImageUrl allData)
                          then (md_sectionMain1Background2ImageUrl allData, r5, w3)
                          else sectionMain1Background2ImageUrl e r5 w3)
      in (\<lparr>md_logoUrl = v1, md_sectionMain1Description = v2,
           md_sectionMain1Background2ImageUrl = v3, md_rawData = md_rawData allData\<rparr>,
          r6, w4))"

definition setCustomLogoUrl :: "json \<Rightarrow> OpIdResourceClass \<Rightarrow> OpIdResourceClass" where
  "setCustomLogoUrl v r = r\<lparr>customOverrides := (customOverrides r)(''logoUrl'' \<mapsto> v)\<rparr>"

definition setCustomDescription :: "json \<Rightarrow> OpIdResourceClass \<Rightarrow> OpIdResourceClass" where
  "setCustomDescription v r =
     r\<lparr>customOverrides := (customOverrides r)(''sectionMain1Description'' \<mapsto> v)\<rparr>"

definition setCustomBackgroundImageUrl :: "json \<Rightarrow> OpIdResourceClass \<Rightarrow> OpIdResourceClass" where
  "setCustomBackgroundImageUrl v r =
     r\<lparr>customOverrides := (customOverrides r)(''sectionMain1Background2ImageUrl'' \<mapsto> v)\<rparr>"

definition clearCache ::
  "string option \<Rightarrow> OpIdResourceClass \<Rightarrow> world \<Rightarrow> OpIdResourceClass \<times> world" where
  \<comment> \<open>\<^verbatim>\<open>OpIdResourceClass.clearCache(dataType = null)\<close>\<close>
  "clearCache dataType r w =
     (let r1 = (case dataType of
                  None \<Rightarrow> r\<lparr>dataCache := Map.empty\<rparr>
                | Some k \<Rightarrow>
                    if k \<noteq> [] then r\<lparr>dataCache := (dataCache r)(k := None)\<rparr>
                    else r\<lparr>dataCache := Map.empty\<rparr>)
      in (r1, api_clearCache (Some (getSimpleIdentityUrl r1)) w))"

definition clearOverrides :: "OpIdResourceClass \<Rightarrow> OpIdResourceClass" where
  "clearOverrides r = r\<lparr>customOverrides := Map.empty\<rparr>"


section \<open>OpIdResourceFactoryClass and AdiParse\<close>

definition OpIdResourceFactory_createByIdentityUrl ::
  "NetworkNameServiceClass \<Rightarrow> string \<Rightarrow> OpIdResourceClass option" where
  "OpIdResourceFactory_createByIdentityUrl ns u =
     (case OpIdInfoFactory_createByIdentityUrl ns u of
        None \<Rightarrow> None
      | Some info \<Rightarrow> Some (new_OpIdResourceClass info))"

definition OpIdResourceFactory_createByIdentityName ::
  "NetworkNameServiceClass \<Rightarrow> string \<Rightarrow> OpIdResourceClass option" where
  "OpIdResourceFactory_createByIdentityName ns nm =
     Some (new_OpIdResourceClass (OpIdInfoFactory_createByIdentityName ns nm))"

definition AdiParse_getBankOnLedgerUrl ::
  "NetworkNameServiceClass \<Rightarrow> string \<Rightarrow> string option" where
  \<comment> \<open>\<open>None\<close> is \<^verbatim>\<open>null\<close>; on a string no step of the call raises\<close>
  "AdiParse_getBankOnLedgerUrl ns u =
     (case OpIdResourceFactory_createByIdentityUrl ns u of
        None \<Rightarrow> None
      | Some r \<Rightarrow> Some (fst (bankOnLedger_Url ns (adiInfo (opIdInfo r)))))"

definition AdiParse_getQobotoUrl ::
  "NetworkNameServiceClass \<Rightarrow> string \<Rightarrow> string option" where
  "AdiParse_getQobotoUrl ns u =
     (case OpIdResourceFactory_createByIdentityUrl ns u of
        None \<Rightarrow> None
      | Some r \<Rightarrow> Some (fst (qoboto_Url ns (adiInfo (opIdInfo r)))))"


section \<open>Sequences of calls on one record\<close>

datatype resource_call =
    Call_logoUrl
  | Call_sectionMain1Description
  | Call_sectionMain1Background2ImageUrl
  | Call_getAllMainData
  | Call_setCustomLogoUrl json
  | Call_setCustomDescription json
  | Call_setCustomBackgroundImageUrl json
  | Call_clearCache "string option"
  | Call_clearOverrides

fun run_call ::
  "env \<Rightarrow> resource_call \<Rightarrow> OpIdResourceClass \<times> world \<Rightarrow> OpIdResourceClass \<times> world" where
  "run_call e Call_logoUrl (r, w) = snd (logoUrl e r w)"
| "run_call e Call_sectionMain1Description (r, w) = snd (sectionMain1Description e r w)"
| "run_call e Call_sectionMain1Background2ImageUrl (r, w) =
     snd (sectionMain1Background2ImageUrl e r w)"
| "run_call e Call_getAllMainData (r, w) = snd (getAllMainData e r w)"
| "run_call e (Call_setCustomLogoUrl v) (r, w) = (setCustomLogoUrl v r, w)"
| "run_call e (Call_setCustomDescription v) (r, w) = (setCustomDescription v r, w)"
| "run_call e (Call_setCustomBackgroundImageUrl v) (r, w) = (setCustomBackgroundImageUrl v r, w)"
| "run_call e (Call_clearCache k) (r, w) = clearCache k r w"
| "run_call e Call_clearOverrides (r, w) = (clearOverrides r, w)"

fun run_calls ::
  "env \<Rightarrow> resource_call list \<Rightarrow> OpIdResourceClass \<times> world \<Rightarrow> OpIdResourceClass \<times> world" where
  "run_calls e [] s = s"
| "run_calls e (c # cs) s = run_calls e cs (run_call e c s)"

fun overrides_field :: "resource_call \<Rightarrow> string \<Rightarrow> bool" where
  \<comment> \<open>the calls that write the override of field \<open>k\<close>: its setter and \<^verbatim>\<open>clearOverrides\<close>\<close>
  "overrides_field (Call_setCustomLogoUrl v) k = (k = ''logoUrl'')"
| "overrides_field (Call_setCustomDescription v) k = (k = ''sectionMain1Description'')"
| "overrides_field (Call_setCustomBackgroundImageUrl v) k =
     (k = ''sectionMain1Background2ImageUrl'')"
| "overrides_field Call_clearOverrides k = True"
| "overrides_field c k = False"


section \<open>Example inputs\<close>

text \<open>Concrete environments, responses and records at which the theorems are evaluated.\<close>

definition example_env :: "json \<Rightarrow> env" where
  \<comment> \<open>every request succeeds and its body parses to \<open>v\<close>; the clock advances one second
      per read\<close>
  "example_env v =
     \<lparr>Date_now = (\<lambda>n. 1000 * int n),
      fetch = (\<lambda>n u. Some \<lparr>ok = True, response_text = Some ''body''\<rparr>),
      JSON_parse = (\<lambda>s. if s = ''body'' then Some v else None),
      encodeURIComponent = (\<lambda>s. s)\<rparr>"

definition offline_env :: env where
  \<comment> \<open>every request rejects\<close>
  "offline_env =
     \<lparr>Date_now = (\<lambda>n. 1000 * int n), fetch = (\<lambda>n u. None),
      JSON_parse = (\<lambda>s. None), encodeURIComponent = (\<lambda>s. s)\<rparr>"

definition new_world :: world where
  "new_world = \<lparr>api = new_QobotoApiService, clock_reads = 0, requests = []\<rparr>"

definition main_section :: json where
  "main_section =
     JObj [(''name'', JStr ''main''), (''logoUrl'', JStr ''L''),
           (''sectionMain1Description'', JStr ''D''),
           (''sectionMain1Background2ImageUrl'', JStr ''B'')]"

definition example_sections :: json where
  "example_sections =
     JArr [JObj [(''name'', JStr ''header'')], main_section, JObj [(''name'', JStr ''footer'')]]"

definition odd_section :: json where
  \<comment> \<open>\<^verbatim>\<open>{"name": {"toString": null}}\<close>\<close>
  "odd_section = JObj [(''name'', JObj [(''toString'', JNull)])]"

definition stale_world :: world where
  \<comment> \<open>one entry, stored exactly five minutes before the first clock read of
      \<^const>\<open>example_env\<close>\<close>
  "stale_world =
     set_cache [''qoboto_sunstream.acme'' \<mapsto> \<lparr>data = main_section, timestamp = - 300000\<rparr>]
       new_world"

definition example_record :: OpIdResourceClass where
  "example_record =
     new_OpIdResourceClass
       (OpIdInfoFactory_createByIdentityName new_NetworkNameServiceClass ''sunstream'')"

definition example_calls :: "resource_call list" where
  "example_calls =
     [Call_clearCache None, Call_getAllMainData, Call_logoUrl, Call_sectionMain1Description,
      Call_sectionMain1Background2ImageUrl, Call_clearCache (Some ''logoUrl'')]"


section \<open>Strings\<close>

lemma toLowerCase_char_idem: "toLowerCase_char (toLowerCase_char c) = toLowerCase_char c"
  by (auto simp: toLowerCase_char_def is_upper_def Let_def)

lemma toLowerCase_idem: "toLowerCase (toLowerCase s) = toLowerCase s"
  by (simp add: toLowerCase_def toLowerCase_char_idem)

lemma toLowerCase_append: "toLowerCase (s @ t) = toLowerCase s @ toLowerCase t"
  by (simp add: toLowerCase_def)

lemma toLowerCase_Nil_iff: "toLowerCase s = [] \<longleftrightarrow> s = []"
  by (simp add: toLowerCase_def)

lemma toLowerCase_acc: "toLowerCase ''acc://'' = ''acc://''"
  by code_simp

lemma toLowerCase_acme: "toLowerCase ''.acme'' = ''.acme''"
  by code_simp

lemma toLowerCase_acc_append: "toLowerCase (''acc://'' @ t) = ''acc://'' @ toLowerCase t"
  by (simp only: toLowerCase_append toLowerCase_acc)

lemma toLowerCase_append_acme: "toLowerCase (t @ ''.acme'') = toLowerCase t @ ''.acme''"
  by (simp only: toLowerCase_append toLowerCase_acme)

lemma toLowerCase_slashes: "toLowerCase (replicate k CHR ''/'') = replicate k CHR ''/''"
proof -
  have "toLowerCase_char CHR ''/'' = CHR ''/''" by code_simp
  then show ?thesis by (simp add: toLowerCase_def)
qed

lemma isWhiteSpace_lower: "isWhiteSpace c \<Longrightarrow> toLowerCase_char c = c"
  by (auto simp: isWhiteSpace_def toLowerCase_char_def is_upper_def Let_def)

lemma toLowerCase_blank: "\<forall>c\<in>set s. isWhiteSpace c \<Longrightarrow> toLowerCase s = s"
  by (simp add: toLowerCase_def isWhiteSpace_lower map_idI)

lemma isWhiteSpace_not_special:
  "isWhiteSpace c \<Longrightarrow>
     c \<noteq> CHR ''a'' \<and> c \<noteq> CHR ''m'' \<and> c \<noteq> CHR ''/'' \<and> c \<noteq> CHR ''.''"
  by (auto simp: isWhiteSpace_def)

lemma dropWhile_all_iff: "(\<forall>x\<in>set (dropWhile P s). P x) \<longleftrightarrow> (\<forall>x\<in>set s. P x)"
proof
  assume a: "\<forall>x\<in>set (dropWhile P s). P x"
  have "dropWhile P s = []"
  proof (rule ccontr)
    assume ne: "dropWhile P s \<noteq> []"
    then have "\<not> P (hd (dropWhile P s))" by (rule hd_dropWhile)
    moreover from ne have "hd (dropWhile P s) \<in> set (dropWhile P s)" by simp
    ultimately show False using a by blast
  qed
  then show "\<forall>x\<in>set s. P x" by (simp add: dropWhile_eq_Nil_conv)
next
  assume "\<forall>x\<in>set s. P x"
  then show "\<forall>x\<in>set (dropWhile P s). P x"
    using set_dropWhileD by fastforce
qed

lemma trim_Nil_iff: "trim s = [] \<longleftrightarrow> (\<forall>c\<in>set s. isWhiteSpace c)"
  by (simp add: trim_def dropWhile_eq_Nil_conv dropWhile_all_iff)

lemma includes_str_iff: "includes_str s p \<longleftrightarrow> (\<exists>a b. s = a @ p @ b)"
proof (induction s)
  case Nil
  then show ?case by auto
next
  case (Cons c cs)
  show ?case
  proof
    assume "includes_str (c # cs) p"
    then consider "prefix p (c # cs)" | "includes_str cs p" by auto
    then show "\<exists>a b. c # cs = a @ p @ b"
    proof cases
      case 1
      then obtain b where "c # cs = p @ b" by (auto simp: prefix_def)
      then have "c # cs = [] @ p @ b" by simp
      then show ?thesis by blast
    next
      case 2
      with Cons.IH obtain a b where "cs = a @ p @ b" by blast
      then have "c # cs = (c # a) @ p @ b" by simp
      then show ?thesis by blast
    qed
  next
    assume "\<exists>a b. c # cs = a @ p @ b"
    then obtain a b where ab: "c # cs = a @ p @ b" by blast
    show "includes_str (c # cs) p"
    proof (cases a)
      case Nil
      with ab have "prefix p (c # cs)" by (simp add: prefix_def)
      then show ?thesis by simp
    next
      case (Cons x a')
      with ab have "cs = a' @ p @ b" by simp
      with Cons.IH have "includes_str cs p" by blast
      then show ?thesis by simp
    qed
  qed
qed

lemma includes_str_append_right: "includes_str s p \<Longrightarrow> includes_str (s @ t) p"
  unfolding includes_str_iff by (metis append.assoc)

lemma includes_str_self_left: "includes_str (p @ s) p"
  unfolding includes_str_iff by (metis append_Nil)

lemma includes_str_self_right: "includes_str (s @ p) p"
  unfolding includes_str_iff by (metis append_Nil2)

lemma includes_str_set: "includes_str s p \<Longrightarrow> set p \<subseteq> set s"
  by (auto simp: includes_str_iff)

lemma split_append_sep: "sep \<notin> set a \<Longrightarrow> split (a @ sep # b) sep = a # split b sep"
  by (induction a) (auto split: list.splits)

lemma strip_trailing_slashes_replicate:
  "strip_trailing_slashes (s @ replicate k CHR ''/'') = strip_trailing_slashes s"
proof -
  have "dropWhile (\<lambda>c. c = CHR ''/'') (replicate k CHR ''/'' @ rev s) =
        dropWhile (\<lambda>c. c = CHR ''/'') (rev s)"
    by (rule dropWhile_append2) simp
  then show ?thesis by (simp add: strip_trailing_slashes_def)
qed


section \<open>IdentityFormatterClass: normalisation\<close>

lemma formatIdentity_includes:
  "x \<noteq> [] \<Longrightarrow>
     includes_str (formatIdentity x) ''acc://'' \<and> includes_str (formatIdentity x) ''.acme''"
  unfolding formatIdentity_def Let_def
  using includes_str_self_left[of "''acc://''"] includes_str_self_right[of _ "''.acme''"]
    includes_str_append_right[of _ "''acc://''" "''.acme''"]
  by auto

lemma formatIdentity_lower: "toLowerCase (formatIdentity x) = formatIdentity x"
  by (simp add: formatIdentity_def Let_def toLowerCase_idem
      toLowerCase_acc_append[simplified] toLowerCase_append_acme toLowerCase_Nil_iff)

lemma formatIdentity_Nil_iff: "formatIdentity x = [] \<longleftrightarrow> x = []"
  by (auto simp: formatIdentity_def Let_def toLowerCase_Nil_iff)

text \<open>
  Claim C8. Normalisation is idempotent: formatting an already formatted identity changes
  nothing. This holds for every input string, so in particular for those that miss the
  \<^verbatim>\<open>acc://\<close> prefix, the \<^verbatim>\<open>.acme\<close> suffix or both.
\<close>

theorem formatIdentity_idempotent: "formatIdentity (formatIdentity x) = formatIdentity x"
proof (cases "x = []")
  case True
  then show ?thesis by (simp add: formatIdentity_def)
next
  case False
  let ?y = "formatIdentity x"
  from False have inc: "includes_str ?y ''acc://''" "includes_str ?y ''.acme''"
    using formatIdentity_includes by blast+
  have ne: "?y \<noteq> []" using False by (simp add: formatIdentity_Nil_iff)
  have "formatIdentity ?y = toLowerCase ?y"
    using inc ne unfolding formatIdentity_def[of ?y] Let_def
    by (simp add: formatIdentity_lower)
  then show ?thesis by (simp add: formatIdentity_lower)
qed

theorem formatIdentity_idempotent_witness:
  "formatIdentity ''SunStream'' = ''acc://sunstream.acme''
   \<and> formatIdentity (formatIdentity ''SunStream'') = ''acc://sunstream.acme''"
proof -
  have "formatIdentity ''SunStream'' = ''acc://sunstream.acme''" by code_simp
  then show ?thesis using formatIdentity_idempotent[of "''SunStream''"] by simp
qed


section \<open>AdiStringHelper: parsing\<close>

text \<open>
  Claim C7. The canonical locator \<^verbatim>\<open>acc://sunstream.acme\<close> parses to the root name
  \<^verbatim>\<open>sunstream\<close> with an empty sub-path, and \<^verbatim>\<open>acc://sunstream.acme/somepath\<close> parses to
  a non-empty sub-path: what is left of the second dot-separated piece
  \<^verbatim>\<open>acme/somepath\<close> after its first five characters, that is \<^verbatim>\<open>somepath\<close>.
\<close>

theorem parseAdi2_canonical:
  "parseAdi2 ''acc://sunstream.acme'' =
     Some \<lparr>url = ''acc://sunstream.acme'', path = ''sunstream.acme'', name = ''sunstream'',
           rootUrl = ''acc://sunstream.acme'', subPath = []\<rparr>
   \<and> parseAdi2 ''acc://sunstream.acme/somepath'' =
     Some \<lparr>url = ''acc://sunstream.acme/somepath'', path = ''sunstream.acme/somepath'',
           name = ''sunstream'', rootUrl = ''acc://sunstream.acme'',
           subPath = substring_from ''acme/somepath'' 5\<rparr>
   \<and> substring_from ''acme/somepath'' 5 = ''somepath''"
  by code_simp

lemma fixAdiUrl_slashes:
  assumes "x \<noteq> []"
  shows "fixAdiUrl (x @ replicate k CHR ''/'') = fixAdiUrl x"
proof -
  have "toLowerCase (x @ replicate k CHR ''/'') = toLowerCase x @ replicate k CHR ''/''"
    by (simp only: toLowerCase_append toLowerCase_slashes)
  with assms show ?thesis
    by (simp add: fixAdiUrl_def strip_trailing_slashes_replicate)
qed

text \<open>
  Claim C10. Parsing ignores trailing slashes: for every input whose trimmed form is not
  empty, and every number \<open>k\<close> of slashes appended to it, \<^const>\<open>parseAdi2\<close> returns the
  same record (or the same \<^verbatim>\<open>null\<close>) as on the input alone.
\<close>

theorem parseAdi2_trailing_slashes:
  assumes "trim x \<noteq> []"
  shows "parseAdi2 (x @ replicate k CHR ''/'') = parseAdi2 x"
proof -
  from assms have ne: "x \<noteq> []" by (auto simp: trim_def)
  from assms obtain c where "c \<in> set x" "\<not> isWhiteSpace c"
    by (auto simp: trim_Nil_iff)
  then have "trim (x @ replicate k CHR ''/'') \<noteq> []"
    by (auto simp: trim_Nil_iff)
  with assms ne show ?thesis
    by (simp add: parseAdi2_def fixAdiUrl_slashes)
qed

theorem parseAdi2_trailing_slashes_witness:
  "trim ''Sunstream.acme/Docs'' \<noteq> []
   \<and> parseAdi2 ''Sunstream.acme/Docs///'' = parseAdi2 ''Sunstream.acme/Docs''
   \<and> parseAdi2 ''Sunstream.acme/Docs'' =
       Some \<lparr>url = ''acc://sunstream.acme/docs'', path = ''sunstream.acme/docs'',
             name = ''sunstream'', rootUrl = ''acc://sunstream.acme'', subPath = ''docs''\<rparr>"
proof -
  have t: "trim ''Sunstream.acme/Docs'' \<noteq> []" by code_simp
  have p: "parseAdi2 ''Sunstream.acme/Docs'' =
       Some \<lparr>url = ''acc://sunstream.acme/docs'', path = ''sunstream.acme/docs'',
             name = ''sunstream'', rootUrl = ''acc://sunstream.acme'', subPath = ''docs''\<rparr>"
    by code_simp
  have "replicate 3 CHR ''/'' = ''///''" by (simp add: numeral_3_eq_3)
  with parseAdi2_trailing_slashes[OF t, of 3] t p show ?thesis by simp
qed


section \<open>AdiUrlClass: partner URLs\<close>

lemma calculate_app_Url_fst:
  "fst (calculate_app_Url ns appSite a) =
     ''https://'' @ js_str (adi_name a) @ ''.'' @ appSite @ ''/'' @ pathEnd a
       @ ''?current-network='' @ currentNetwork ns"
  by (simp add: calculate_app_Url_def calc_Server_def currentNetworkName_def Let_def)

lemma calculate_app_Url_snd:
  "adi_name (snd (calculate_app_Url ns appSite a)) = adi_name a"
  "pathEnd (snd (calculate_app_Url ns appSite a)) = pathEnd a"
  by (simp_all add: calculate_app_Url_def calc_Server_def currentNetworkName_def Let_def)

lemma createByUrl_parsed:
  "parseAdi2 u = Some p \<Longrightarrow>
     adi_name (createByUrl ns0 u) = Some (name p) \<and> pathEnd (createByUrl ns0 u) = subPath p"
  by (simp add: createByUrl_def init_ByAdiUrl_def new_AdiUrlClass_def calc_Server_def Let_def)

text \<open>
  Claim C5. For an object created from a locator that parses to \<open>p\<close>, the URL built for
  a partner domain under the network service \<open>ns\<close> is
  \<^verbatim>\<open>https://<name>.<domain>/<subPath>?current-network=<network>\<close>; with the root name
  \<^verbatim>\<open>sunstream\<close>, an empty sub-path and the network \<^verbatim>\<open>mainnet\<close> the BankOnLedger URL is
  exactly \<^verbatim>\<open>https://sunstream.BankOnLedger.com/?current-network=mainnet\<close>.
\<close>

theorem calculate_app_Url_shape:
  assumes "parseAdi2 u = Some p"
  shows "fst (calculate_app_Url ns appSite (createByUrl ns0 u)) =
           ''https://'' @ name p @ ''.'' @ appSite @ ''/'' @ subPath p
             @ ''?current-network='' @ currentNetworkName ns
         \<and> (name p = ''sunstream'' \<and> subPath p = [] \<and> currentNetworkName ns = ''mainnet''
              \<longrightarrow> fst (bankOnLedger_Url ns (createByUrl ns0 u)) =
                    ''https://sunstream.BankOnLedger.com/?current-network=mainnet'')"
  using createByUrl_parsed[OF assms, of ns0]
  by (auto simp: calculate_app_Url_fst js_str_def currentNetworkName_def bankOnLedger_Url_def)

theorem calculate_app_Url_shape_witness:
  "parseAdi2 ''acc://sunstream.acme'' =
     Some \<lparr>url = ''acc://sunstream.acme'', path = ''sunstream.acme'', name = ''sunstream'',
           rootUrl = ''acc://sunstream.acme'', subPath = []\<rparr>
   \<and> fst (bankOnLedger_Url new_NetworkNameServiceClass
            (createByUrl new_NetworkNameServiceClass ''acc://sunstream.acme'')) =
       ''https://sunstream.BankOnLedger.com/?current-network=mainnet''"
proof -
  have p: "parseAdi2 ''acc://sunstream.acme'' =
     Some \<lparr>url = ''acc://sunstream.acme'', path = ''sunstream.acme'', name = ''sunstream'',
           rootUrl = ''acc://sunstream.acme'', subPath = []\<rparr>"
    by code_simp
  show ?thesis
    using calculate_app_Url_shape[OF p, of new_NetworkNameServiceClass "''BankOnLedger.com''"
        new_NetworkNameServiceClass] p
    by (simp add: currentNetworkName_def new_NetworkNameServiceClass_def)
qed

text \<open>
  Claim C6. Building the URL of one object under the network \<open>n1\<close> and, after the network
  service has been switched to \<open>n2\<close>, building it again for the same partner domain gives
  two strings with the same text up to and including \<^verbatim>\<open>?current-network=\<close> (scheme, root
  name, partner domain, sub-path), followed by \<open>n1\<close> in the first and \<open>n2\<close> in the second:
  each call reads the network name afresh.
\<close>

theorem network_switch_changes_query_only:
  "fst (calculate_app_Url (switchNetworkName n1 ns) appSite a) =
     (''https://'' @ js_str (adi_name a) @ ''.'' @ appSite @ ''/'' @ pathEnd a
        @ ''?current-network='') @ n1
   \<and> fst (calculate_app_Url (switchNetworkName n2 (switchNetworkName n1 ns)) appSite
            (snd (calculate_app_Url (switchNetworkName n1 ns) appSite a))) =
     (''https://'' @ js_str (adi_name a) @ ''.'' @ appSite @ ''/'' @ pathEnd a
        @ ''?current-network='') @ n2"
  by (simp add: calculate_app_Url_fst calculate_app_Url_snd switchNetworkName_def)

theorem network_switch_changes_query_only_witness:
  "fst (qoboto_Url (switchNetworkName ''mainnet'' new_NetworkNameServiceClass)
         (createByUrl new_NetworkNameServiceClass ''acc://sunstream.acme'')) =
     ''https://sunstream.Qoboto.com/?current-network=mainnet''
   \<and> fst (qoboto_Url
            (switchNetworkName ''kermit''
               (switchNetworkName ''mainnet'' new_NetworkNameServiceClass))
            (snd (qoboto_Url (switchNetworkName ''mainnet'' new_NetworkNameServiceClass)
                    (createByUrl new_NetworkNameServiceClass ''acc://sunstream.acme'')))) =
     ''https://sunstream.Qoboto.com/?current-network=kermit''"
proof -
  have p: "parseAdi2 ''acc://sunstream.acme'' =
     Some \<lparr>url = ''acc://sunstream.acme'', path = ''sunstream.acme'', name = ''sunstream'',
           rootUrl = ''acc://sunstream.acme'', subPath = []\<rparr>"
    by code_simp
  show ?thesis
    using network_switch_changes_query_only[of "''mainnet''" new_NetworkNameServiceClass
        "''Qoboto.com''" "createByUrl new_NetworkNameServiceClass ''acc://sunstream.acme''"
        "''kermit''"]
      createByUrl_parsed[OF p, of new_NetworkNameServiceClass]
    by (simp add: qoboto_Url_def js_str_def)
qed


section \<open>AdiParse: blank input\<close>

lemma formatIdentity_blank:
  assumes "s \<noteq> []" and "\<forall>c\<in>set s. isWhiteSpace c"
  shows "formatIdentity s = ''acc://'' @ s @ ''.acme''"
proof -
  have low: "toLowerCase s = s" using assms(2) by (rule toLowerCase_blank)
  have "CHR ''a'' \<notin> set s" using assms(2) isWhiteSpace_not_special by blast
  then have n1: "\<not> includes_str s ''acc://''"
    using includes_str_set[of s "''acc://''"] by auto
  have "CHR ''m'' \<notin> set (''acc://'' @ s)" using assms(2) isWhiteSpace_not_special by auto
  then have n2: "\<not> includes_str (''acc://'' @ s) ''.acme''"
    using includes_str_set[of "''acc://'' @ s" "''.acme''"] by auto
  show ?thesis using assms(1) n1 n2 low
    by (simp add: formatIdentity_def Let_def)
qed

lemma match_identity_blank:
  assumes "s \<noteq> []" and "\<forall>c\<in>set s. isWhiteSpace c"
  shows "match_identity (''acc://'' @ s @ ''.acme'') = Some (s, None)"
proof -
  have P: "\<And>c. c \<in> set s \<Longrightarrow> c \<noteq> CHR ''/'' \<and> c \<noteq> CHR ''.''"
    using assms(2) isWhiteSpace_not_special by blast
  have t: "takeWhile (\<lambda>c. c \<noteq> CHR ''/'' \<and> c \<noteq> CHR ''.'') (s @ ''.acme'') = s"
    using P by (simp add: takeWhile_append2)
  have d: "dropWhile (\<lambda>c. c \<noteq> CHR ''/'' \<and> c \<noteq> CHR ''.'') (s @ ''.acme'') = ''.acme''"
    using P by (simp add: dropWhile_append2)
  show ?thesis using assms(1) t d
    by (simp add: match_identity_def Let_def)
qed

lemma parseAdi2_blank_name:
  assumes "\<forall>c\<in>set s. isWhiteSpace c"
  shows "parseAdi2 (''acc://'' @ s @ ''.acme'') =
     Some \<lparr>url = ''acc://'' @ s @ ''.acme'', path = s @ ''.acme'', name = s,
           rootUrl = ''acc://'' @ s @ ''.acme'', subPath = []\<rparr>"
proof -
  let ?u = "''acc://'' @ s @ ''.acme''"
  have "\<not> isWhiteSpace CHR ''a''" by (simp add: isWhiteSpace_def)
  then have tr: "trim ?u \<noteq> []" by (auto simp: trim_Nil_iff)
  have "toLowerCase ?u = ''acc://'' @ toLowerCase s @ ''.acme''"
    by (simp only: toLowerCase_acc_append toLowerCase_append_acme)
  then have low: "toLowerCase ?u = ?u"
    using toLowerCase_blank[OF assms] by simp
  have strip: "strip_trailing_slashes ?u = ?u"
    by (simp add: strip_trailing_slashes_def)
  have fx: "fixAdiUrl ?u = ?u"
    unfolding fixAdiUrl_def using low strip by simp
  have "CHR ''.'' \<notin> set s" using assms isWhiteSpace_not_special by blast
  then have sp: "split (s @ ''.acme'') CHR ''.'' = [s, ''acme'']"
    using split_append_sep[of "CHR ''.''" s "''acme''"] by simp
  show ?thesis
    unfolding parseAdi2_def using tr fx sp
    by (simp add: Let_def startsWith_def substring_from_def)
qed

lemma AdiParse_empty:
  "AdiParse_getBankOnLedgerUrl ns [] = None \<and> AdiParse_getQobotoUrl ns [] = None"
  by (simp add: AdiParse_getBankOnLedgerUrl_def AdiParse_getQobotoUrl_def
      OpIdResourceFactory_createByIdentityUrl_def OpIdInfoFactory_createByIdentityUrl_def
      formatIdentity_def match_identity_def)

lemma AdiParse_blank:
  assumes "s \<noteq> []" and "\<forall>c\<in>set s. isWhiteSpace c"
  shows "AdiParse_getBankOnLedgerUrl ns s =
           Some (''https://'' @ s @ ''.BankOnLedger.com/?current-network='' @ currentNetworkName ns)
         \<and> AdiParse_getQobotoUrl ns s =
           Some (''https://'' @ s @ ''.Qoboto.com/?current-network='' @ currentNetworkName ns)"
  using formatIdentity_blank[OF assms] match_identity_blank[OF assms]
    createByUrl_parsed[OF parseAdi2_blank_name[OF assms(2)], of ns]
  by (simp add: AdiParse_getBankOnLedgerUrl_def AdiParse_getQobotoUrl_def
      OpIdResourceFactory_createByIdentityUrl_def OpIdInfoFactory_createByIdentityUrl_def
      new_OpIdResourceClass_def Let_def bankOnLedger_Url_def qoboto_Url_def
      calculate_app_Url_fst js_str_def currentNetworkName_def)

text \<open>
  Claim C9, as the specification states it, fails: for an input of one space, which is all
  white space, the URL builder does not return \<^verbatim>\<open>null\<close> but a URL whose host label is
  the space.
\<close>

theorem blank_identity_yields_url:
  "trim '' '' = []
   \<and> AdiParse_getBankOnLedgerUrl new_NetworkNameServiceClass '' '' =
       Some ''https:// .BankOnLedger.com/?current-network=mainnet''"
  by code_simp

text \<open>
  Claim C9, amended. For the empty string both URL builders return \<^verbatim>\<open>null\<close>, and for
  every empty or all-white-space input \<^const>\<open>parseAdi2\<close> returns \<^verbatim>\<open>null\<close>. A non-empty
  input of white space only is not rejected by the URL builders: it is formatted to
  \<^verbatim>\<open>acc://<input>.acme\<close>, which matches the identity pattern, and the builders return the
  URL with the input as root name.
\<close>

theorem blank_identity_results:
  "AdiParse_getBankOnLedgerUrl ns [] = None
   \<and> AdiParse_getQobotoUrl ns [] = None
   \<and> (trim s = [] \<longrightarrow> parseAdi2 s = None)
   \<and> (s \<noteq> [] \<and> trim s = [] \<longrightarrow>
        AdiParse_getBankOnLedgerUrl ns s =
          Some (''https://'' @ s @ ''.BankOnLedger.com/?current-network='' @ currentNetworkName ns)
        \<and> AdiParse_getQobotoUrl ns s =
          Some (''https://'' @ s @ ''.Qoboto.com/?current-network='' @ currentNetworkName ns))"
  using AdiParse_empty[of ns] AdiParse_blank[of s ns]
  by (auto simp: parseAdi2_def trim_Nil_iff)

theorem blank_identity_results_witness:
  "[CHR 0x09, CHR 0x20] \<noteq> [] \<and> trim [CHR 0x09, CHR 0x20] = []
   \<and> parseAdi2 [CHR 0x09, CHR 0x20] = None
   \<and> AdiParse_getBankOnLedgerUrl new_NetworkNameServiceClass [] = None
   \<and> AdiParse_getQobotoUrl new_NetworkNameServiceClass [] = None
   \<and> AdiParse_getBankOnLedgerUrl new_NetworkNameServiceClass [CHR 0x09, CHR 0x20] =
       Some (''https://'' @ [CHR 0x09, CHR 0x20] @ ''.BankOnLedger.com/?current-network=mainnet'')
   \<and> AdiParse_getQobotoUrl new_NetworkNameServiceClass [CHR 0x09, CHR 0x20] =
       Some (''https://'' @ [CHR 0x09, CHR 0x20] @ ''.Qoboto.com/?current-network=mainnet'')"
proof -
  have t: "trim [CHR 0x09, CHR 0x20] = []" by code_simp
  show ?thesis
    using blank_identity_results[of new_NetworkNameServiceClass "[CHR 0x09, CHR 0x20]"] t
    by (simp add: currentNetworkName_def new_NetworkNameServiceClass_def)
qed


section \<open>QobotoApiService: selection of the main section\<close>

lemma findMainSection_object: "findMainSection (JObj fs) = Inr (JObj fs)"
  by (simp add: findMainSection_def)

lemma find_main_first:
  assumes "isMain x"
    and "\<forall>y\<in>set pre. \<not> isMain y \<and> toString_ok_opt (get_prop y ''name'')"
  shows "find_main (pre @ x # post) = Inr (Some x)"
  using assms
proof (induction pre)
  case Nil
  then show ?case by (simp add: isMain_def toString_ok_opt_def)
next
  case (Cons a pre)
  then show ?case by simp
qed

lemma find_main_none:
  "\<forall>y\<in>set xs. \<not> isMain y \<Longrightarrow> find_main xs = Inr None \<or> find_main xs = Inl TypeError"
  by (induction xs) auto

lemma findMainSection_array_first:
  assumes "isMain x"
    and "\<forall>y\<in>set pre. \<not> isMain y \<and> toString_ok_opt (get_prop y ''name'')"
  shows "findMainSection (JArr (pre @ x # post)) = Inr x"
  using find_main_first[OF assms] by (simp add: findMainSection_def)

lemma findMainSection_array_none:
  assumes "\<forall>y\<in>set xs. \<not> isMain y"
  shows "findMainSection (JArr xs) = Inr JNull \<or> findMainSection (JArr xs) = Inl TypeError"
  using find_main_none[OF assms] by (auto simp: findMainSection_def)

lemma cache_lookup_absent: "cache (api w) k = None \<Longrightarrow> cache_lookup e k w = (None, w)"
  by (simp add: cache_lookup_def)

lemma getIdentityData_rejected:
  assumes "cache (api w) (''qoboto_'' @ u) = None"
    and "fetch e (length (requests w))
           (baseUrl (api w) @ ''/api/v1/Qoboto/GetDataValue/All?DataAccountUrl=''
              @ encodeURIComponent e u) = None"
  shows "fst (getIdentityData e u w) = JNull"
  using assms
  by (simp add: getIdentityData_def cache_lookup_absent call_fetch_def Let_def)

lemma getIdentityData_selects:
  assumes "cache (api w) (''qoboto_'' @ u) = None"
    and "fetch e (length (requests w))
           (baseUrl (api w) @ ''/api/v1/Qoboto/GetDataValue/All?DataAccountUrl=''
              @ encodeURIComponent e u) = Some resp"
    and "ok resp" and "response_text resp = Some txt"
    and "parse_response e txt = Some v"
  shows "fst (getIdentityData e u w) =
           (case findMainSection v of Inl err \<Rightarrow> JNull
            | Inr m \<Rightarrow> if truthy m then m else JNull)"
  using assms
  by (simp add: getIdentityData_def cache_lookup_absent call_fetch_def Let_def
      split: sum.splits)

lemma getIdentityData_object:
  assumes "cache (api w) (''qoboto_'' @ u) = None"
    and "fetch e (length (requests w))
           (baseUrl (api w) @ ''/api/v1/Qoboto/GetDataValue/All?DataAccountUrl=''
              @ encodeURIComponent e u) = Some resp"
    and "ok resp" and "response_text resp = Some txt"
    and "parse_response e txt = Some (JObj fs)"
  shows "fst (getIdentityData e u w) = JObj fs"
  using getIdentityData_selects[OF assms] by (simp add: findMainSection_object)

lemma getIdentityData_array_first:
  assumes "cache (api w) (''qoboto_'' @ u) = None"
    and "fetch e (length (requests w))
           (baseUrl (api w) @ ''/api/v1/Qoboto/GetDataValue/All?DataAccountUrl=''
              @ encodeURIComponent e u) = Some resp"
    and "ok resp" and "response_text resp = Some txt"
    and "parse_response e txt = Some (JArr (pre @ x # post))"
    and "isMain x"
    and "\<forall>y\<in>set pre. \<not> isMain y \<and> toString_ok_opt (get_prop y ''name'')"
  shows "fst (getIdentityData e u w) = x"
  using getIdentityData_selects[OF assms(1-5)] findMainSection_array_first[OF assms(6,7)] assms(6)
  by (simp add: isMain_def)

lemma getIdentityData_array_none:
  assumes "cache (api w) (''qoboto_'' @ u) = None"
    and "fetch e (length (requests w))
           (baseUrl (api w) @ ''/api/v1/Qoboto/GetDataValue/All?DataAccountUrl=''
              @ encodeURIComponent e u) = Some resp"
    and "ok resp" and "response_text resp = Some txt"
    and "parse_response e txt = Some (JArr xs)" and "\<forall>y\<in>set xs. \<not> isMain y"
  shows "fst (getIdentityData e u w) = JNull"
  using getIdentityData_selects[OF assms(1-5)] findMainSection_array_none[OF assms(6)]
  by auto

lemmas example_defs =
  main_section_def odd_section_def isMain_def get_prop_def findMainSection_def
  toString_ok_opt_def getIdentityData_def cache_lookup_def new_world_def
  new_QobotoApiService_def example_env_def offline_env_def call_fetch_def parse_response_def
  Let_def or_null_def truthy_value_def cache_store_def call_Date_now_def set_cache_def

lemma getIdentityData_example:
  "fst (getIdentityData
         (example_env (JArr [JObj [(''name'', JStr ''header'')], main_section,
                             JObj [(''name'', JStr ''footer'')]]))
         ''sunstream.acme'' new_world) = main_section
   \<and> fst (api_getLogoUrl
         (example_env (JArr [JObj [(''name'', JStr ''header'')], main_section,
                             JObj [(''name'', JStr ''footer'')]]))
         ''sunstream.acme'' new_world) = Inr (JStr ''L'')"
  by (simp add: example_defs api_getLogoUrl_def split: prod.splits)

text \<open>
  Claim C1 says that for an array the data client returns the first element named
  \<^verbatim>\<open>main\<close>. Here the response is the array
  \<^verbatim>\<open>[{"name": {"toString": null}}, {"name": "main", ...}]\<close>: its second element is the
  first one named \<^verbatim>\<open>main\<close>, but the debug line of the search converts the first
  element's name to a string, which raises a TypeError, so \<^verbatim>\<open>_findMainSection\<close> raises
  and \<^verbatim>\<open>getIdentityData\<close> returns \<^verbatim>\<open>null\<close>.
\<close>

theorem findMainSection_raises_before_main:
  "\<not> isMain odd_section \<and> isMain main_section
   \<and> findMainSection (JArr [odd_section, main_section]) = Inl TypeError
   \<and> fst (getIdentityData (example_env (JArr [odd_section, main_section]))
            ''sunstream.acme'' new_world) = JNull"
  by (simp add: example_defs)


section \<open>QobotoApiService: the response cache\<close>

lemma cache_set_cache [simp]: "cache (api (set_cache c w)) = c"
  by (simp add: set_cache_def)

lemma clock_reads_set_cache [simp]: "clock_reads (set_cache c w) = clock_reads w"
  by (simp add: set_cache_def)

lemma cache_store_entry:
  "cache (api (cache_store e k v w)) k =
     Some \<lparr>data = v, timestamp = Date_now e (clock_reads w)\<rparr>"
  by (simp add: cache_store_def call_Date_now_def)

lemma cache_store_clock: "clock_reads (cache_store e k v w) = Suc (clock_reads w)"
  by (simp add: cache_store_def call_Date_now_def)

lemma cache_store_other:
  "k' \<noteq> k \<Longrightarrow> cache (api (cache_store e k v w)) k' = cache (api w) k'"
  by (simp add: cache_store_def call_Date_now_def)

lemma cache_lookup_fresh:
  "cache (api w) k = Some c \<Longrightarrow> Date_now e (clock_reads w) - timestamp c < cacheTimeout \<Longrightarrow>
     cache_lookup e k w = (Some (data c), w\<lparr>clock_reads := Suc (clock_reads w)\<rparr>)"
  by (simp add: cache_lookup_def call_Date_now_def)

lemma cache_lookup_expired:
  "cache (api w) k = Some c \<Longrightarrow> cacheTimeout \<le> Date_now e (clock_reads w) - timestamp c \<Longrightarrow>
     cache_lookup e k w =
       (None, set_cache ((cache (api w))(k := None)) (w\<lparr>clock_reads := Suc (clock_reads w)\<rparr>))"
  by (simp add: cache_lookup_def call_Date_now_def)

lemma cache_lookup_other:
  "k' \<noteq> k \<Longrightarrow> cache (api (snd (cache_lookup e k w))) k' = cache (api w) k'"
  by (simp add: cache_lookup_def call_Date_now_def split: option.splits)

lemma getIdentityData_other:
  "k' \<noteq> ''qoboto_'' @ u \<Longrightarrow> cache (api (snd (getIdentityData e u w))) k' = cache (api w) k'"
  using cache_lookup_other[of k' "''qoboto_'' @ u" e w]
  by (auto simp: getIdentityData_def Let_def call_fetch_def cache_store_other
      split: prod.splits option.splits sum.splits)

lemma getIdentityData_hit:
  assumes "cache (api w) (''qoboto_'' @ u) = Some c"
    and "Date_now e (clock_reads w) - timestamp c < cacheTimeout"
  shows "getIdentityData e u w = (data c, w\<lparr>clock_reads := Suc (clock_reads w)\<rparr>)"
  using cache_lookup_fresh[OF assms] by (simp add: getIdentityData_def)

lemma requests_set_cache [simp]: "requests (set_cache c w) = requests w"
  by (simp add: set_cache_def)

lemma baseUrl_set_cache [simp]: "baseUrl (api (set_cache c w)) = baseUrl (api w)"
  by (simp add: set_cache_def)

lemma cache_store_requests: "requests (cache_store e k v w) = requests w"
  by (simp add: cache_store_def call_Date_now_def)

lemma cache_lookup_None:
  assumes "fst (cache_lookup e k w) = None"
  shows "cache (api (snd (cache_lookup e k w))) k = None"
    and "requests (snd (cache_lookup e k w)) = requests w"
    and "baseUrl (api (snd (cache_lookup e k w))) = baseUrl (api w)"
  using assms
  by (auto simp: cache_lookup_def call_Date_now_def split: option.splits if_splits)

lemma getIdentityData_fetched:
  assumes "cache (api w) (''qoboto_'' @ u) = None"
    and "fetch e (length (requests w))
           (baseUrl (api w) @ ''/api/v1/Qoboto/GetDataValue/All?DataAccountUrl=''
              @ encodeURIComponent e u) = Some resp"
    and "ok resp" and "response_text resp = Some txt"
    and "parse_response e txt = Some v"
    and "findMainSection v = Inr m" and "truthy m"
  shows "getIdentityData e u w =
     (m, cache_store e (''qoboto_'' @ u) m
           (w\<lparr>requests := requests w
                 @ [baseUrl (api w) @ ''/api/v1/Qoboto/GetDataValue/All?DataAccountUrl=''
                      @ encodeURIComponent e u]\<rparr>))"
  using assms
  by (simp add: getIdentityData_def cache_lookup_absent call_fetch_def Let_def)

lemma getIdentityData_round_trip:
  assumes "cache (api w) (''qoboto_'' @ u) = None"
    and "fetch e (length (requests w))
           (baseUrl (api w) @ ''/api/v1/Qoboto/GetDataValue/All?DataAccountUrl=''
              @ encodeURIComponent e u) = Some resp"
    and "ok resp" and "response_text resp = Some txt"
    and "parse_response e txt = Some v"
    and "findMainSection v = Inr m" and "truthy m"
    and "Date_now e (Suc (clock_reads w)) - Date_now e (clock_reads w) < cacheTimeout"
  shows "fst (getIdentityData e u w) = m
     \<and> cache (api (snd (getIdentityData e u w))) (''qoboto_'' @ u) =
         Some \<lparr>data = m, timestamp = Date_now e (clock_reads w)\<rparr>
     \<and> requests (snd (getIdentityData e u w)) =
         requests w @ [baseUrl (api w) @ ''/api/v1/Qoboto/GetDataValue/All?DataAccountUrl=''
                         @ encodeURIComponent e u]
     \<and> fst (getIdentityData e u (snd (getIdentityData e u w))) = m
     \<and> requests (snd (getIdentityData e u (snd (getIdentityData e u w)))) =
         requests (snd (getIdentityData e u w))
     \<and> cache (api (snd (getIdentityData e u (snd (getIdentityData e u w))))) =
         cache (api (snd (getIdentityData e u w)))"
proof -
  let ?url = "baseUrl (api w) @ ''/api/v1/Qoboto/GetDataValue/All?DataAccountUrl=''
                @ encodeURIComponent e u"
  let ?w1 = "cache_store e (''qoboto_'' @ u) m (w\<lparr>requests := requests w @ [?url]\<rparr>)"
  have first: "getIdentityData e u w = (m, ?w1)"
    using getIdentityData_fetched[OF assms(1-7)] .
  have entry: "cache (api ?w1) (''qoboto_'' @ u) =
      Some \<lparr>data = m, timestamp = Date_now e (clock_reads w)\<rparr>"
    by (simp add: cache_store_entry)
  have clock: "clock_reads ?w1 = Suc (clock_reads w)"
    by (simp add: cache_store_clock)
  have "Date_now e (clock_reads ?w1)
      - timestamp \<lparr>data = m, timestamp = Date_now e (clock_reads w)\<rparr> < cacheTimeout"
    using assms(8) clock by simp
  from getIdentityData_hit[OF entry this]
  have second: "getIdentityData e u ?w1 = (m, ?w1\<lparr>clock_reads := Suc (clock_reads ?w1)\<rparr>)"
    by simp
  show ?thesis
    unfolding first using entry second by (simp add: cache_store_requests)
qed

lemma getIdentityData_request:
  assumes "fst (cache_lookup e (''qoboto_'' @ u) w) = None"
  shows "requests (snd (getIdentityData e u w)) =
           requests w @ [baseUrl (api w) @ ''/api/v1/Qoboto/GetDataValue/All?DataAccountUrl=''
                           @ encodeURIComponent e u]
     \<and> cache (api (snd (getIdentityData e u w))) (''qoboto_'' @ u) =
         (if fst (getIdentityData e u w) = JNull then None
          else Some \<lparr>data = fst (getIdentityData e u w),
                     timestamp = Date_now e (clock_reads (snd (cache_lookup e (''qoboto_'' @ u) w)))\<rparr>)"
proof -
  obtain w0 where l: "cache_lookup e (''qoboto_'' @ u) w = (None, w0)"
    using assms by (cases "cache_lookup e (''qoboto_'' @ u) w") auto
  have w0: "cache (api w0) (''qoboto_'' @ u) = None" "requests w0 = requests w"
    "baseUrl (api w0) = baseUrl (api w)"
    using cache_lookup_None[OF assms] l by simp_all
  have tr: "truthy m \<Longrightarrow> m \<noteq> JNull" for m by auto
  show ?thesis
    unfolding getIdentityData_def Let_def l
    using w0
    by (auto simp: call_fetch_def cache_store_entry cache_store_requests
        split: option.splits sum.splits dest: tr)
qed

lemma cache_lookup_expired_clock:
  assumes "cache (api w) k = Some c"
    and "cacheTimeout \<le> Date_now e (clock_reads w) - timestamp c"
  shows "fst (cache_lookup e k w) = None"
    and "clock_reads (snd (cache_lookup e k w)) = Suc (clock_reads w)"
  using assms by (simp_all add: cache_lookup_expired)

lemma example_sections_main: "findMainSection example_sections = Inr main_section"
  by (simp add: example_sections_def findMainSection_def main_section_def isMain_def
      get_prop_def toString_ok_opt_def)

lemma stale_refetched:
  "fst (getIdentityData (example_env example_sections) ''sunstream.acme'' stale_world) =
     main_section"
  by (simp add: example_sections_def stale_world_def cacheTimeout_def example_defs)

text \<open>
  Claim C3. The timeout of the cache is five minutes. A value stored under a key is what
  a lookup of that key returns while the clock has advanced by less than the timeout
  (so in particular at once). A lookup treats a stored entry as absent exactly when
  the time read minus the entry's timestamp is at least the timeout; such a lookup also
  removes the entry, and a store that follows puts a fresh entry with the new time
  under the key. A lookup of an entry that has not expired leaves the cache as it is,
  and neither a lookup nor a whole call of \<^verbatim>\<open>getIdentityData\<close> touches the entry of any
  other key: nothing is swept.

  The same holds of \<^verbatim>\<open>getIdentityData\<close> as a whole. On an entry that has not expired
  it returns the cached data, makes no request and leaves the cache as it is. On an
  expired entry it makes one request, and afterwards the key holds a fresh entry with
  the returned section and the new time, or no entry when the call returned
  \<^verbatim>\<open>null\<close>. After a call that fetched a main section into an empty slot, the key holds
  that section with the time of the store, and a second call made before the timeout
  has passed returns the same section without a second request.
\<close>

theorem cache_expiry:
  "cacheTimeout = 300000
   \<and> (Date_now e (Suc (clock_reads w)) - Date_now e (clock_reads w) < cacheTimeout \<longrightarrow>
        fst (cache_lookup e k (cache_store e k v w)) = Some v)
   \<and> (cache (api w) k = Some c \<longrightarrow>
        (fst (cache_lookup e k w) = None
           \<longleftrightarrow> cacheTimeout \<le> Date_now e (clock_reads w) - timestamp c))
   \<and> (cache (api w) k = Some c \<and> cacheTimeout \<le> Date_now e (clock_reads w) - timestamp c \<longrightarrow>
        cache (api (snd (cache_lookup e k w))) k = None
        \<and> cache (api (cache_store e k v (snd (cache_lookup e k w)))) k =
             Some \<lparr>data = v, timestamp = Date_now e (Suc (clock_reads w))\<rparr>)
   \<and> (cache (api w) k = Some c \<and> Date_now e (clock_reads w) - timestamp c < cacheTimeout \<longrightarrow>
        cache (api (snd (cache_lookup e k w))) = cache (api w))
   \<and> (k' \<noteq> k \<longrightarrow> cache (api (snd (cache_lookup e k w))) k' = cache (api w) k')
   \<and> (k' \<noteq> ''qoboto_'' @ u \<longrightarrow>
        cache (api (snd (getIdentityData e u w))) k' = cache (api w) k')
   \<and> (cache (api w) (''qoboto_'' @ u) = Some c
        \<and> Date_now e (clock_reads w) - timestamp c < cacheTimeout \<longrightarrow>
        getIdentityData e u w = (data c, w\<lparr>clock_reads := Suc (clock_reads w)\<rparr>))
   \<and> (cache (api w) (''qoboto_'' @ u) = Some c
        \<and> cacheTimeout \<le> Date_now e (clock_reads w) - timestamp c \<longrightarrow>
        requests (snd (getIdentityData e u w)) =
          requests w @ [baseUrl (api w) @ ''/api/v1/Qoboto/GetDataValue/All?DataAccountUrl=''
                          @ encodeURIComponent e u]
        \<and> cache (api (snd (getIdentityData e u w))) (''qoboto_'' @ u) =
            (if fst (getIdentityData e u w) = JNull then None
             else Some \<lparr>data = fst (getIdentityData e u w),
                        timestamp = Date_now e (Suc (clock_reads w))\<rparr>))
   \<and> (cache (api w) (''qoboto_'' @ u) = None
        \<and> fetch e (length (requests w))
             (baseUrl (api w) @ ''/api/v1/Qoboto/GetDataValue/All?DataAccountUrl=''
                @ encodeURIComponent e u) = Some resp
        \<and> ok resp \<and> response_text resp = Some tx \<and> parse_response e tx = Some pv
        \<and> findMainSection pv = Inr m \<and> truthy m
        \<and> Date_now e (Suc (clock_reads w)) - Date_now e (clock_reads w) < cacheTimeout \<longrightarrow>
        fst (getIdentityData e u w) = m
        \<and> cache (api (snd (getIdentityData e u w))) (''qoboto_'' @ u) =
            Some \<lparr>data = m, timestamp = Date_now e (clock_reads w)\<rparr>
        \<and> requests (snd (getIdentityData e u w)) =
            requests w @ [baseUrl (api w) @ ''/api/v1/Qoboto/GetDataValue/All?DataAccountUrl=''
                            @ encodeURIComponent e u]
        \<and> fst (getIdentityData e u (snd (getIdentityData e u w))) = m
        \<and> requests (snd (getIdentityData e u (snd (getIdentityData e u w)))) =
            requests (snd (getIdentityData e u w))
        \<and> cache (api (snd (getIdentityData e u (snd (getIdentityData e u w))))) =
            cache (api (snd (getIdentityData e u w))))"
proof (intro conjI impI)
  show "cacheTimeout = 300000" by (simp add: cacheTimeout_def)
next
  assume "Date_now e (Suc (clock_reads w)) - Date_now e (clock_reads w) < cacheTimeout"
  then show "fst (cache_lookup e k (cache_store e k v w)) = Some v"
    using cache_lookup_fresh[of "cache_store e k v w" k
        "\<lparr>data = v, timestamp = Date_now e (clock_reads w)\<rparr>" e]
    by (simp add: cache_store_entry cache_store_clock)
next
  assume "cache (api w) k = Some c"
  then show "fst (cache_lookup e k w) = None
      \<longleftrightarrow> cacheTimeout \<le> Date_now e (clock_reads w) - timestamp c"
    by (cases "Date_now e (clock_reads w) - timestamp c < cacheTimeout")
      (simp_all add: cache_lookup_fresh cache_lookup_expired)
next
  assume a: "cache (api w) k = Some c
      \<and> cacheTimeout \<le> Date_now e (clock_reads w) - timestamp c"
  then show "cache (api (snd (cache_lookup e k w))) k = None"
    by (simp add: cache_lookup_expired)
  from a show "cache (api (cache_store e k v (snd (cache_lookup e k w)))) k =
      Some \<lparr>data = v, timestamp = Date_now e (Suc (clock_reads w))\<rparr>"
    by (simp add: cache_lookup_expired cache_store_entry)
next
  assume "cache (api w) k = Some c \<and> Date_now e (clock_reads w) - timestamp c < cacheTimeout"
  then show "cache (api (snd (cache_lookup e k w))) = cache (api w)"
    by (simp add: cache_lookup_fresh)
next
  assume "k' \<noteq> k"
  then show "cache (api (snd (cache_lookup e k w))) k' = cache (api w) k'"
    by (rule cache_lookup_other)
next
  assume "k' \<noteq> ''qoboto_'' @ u"
  then show "cache (api (snd (getIdentityData e u w))) k' = cache (api w) k'"
    by (rule getIdentityData_other)
next
  assume "cache (api w) (''qoboto_'' @ u) = Some c
      \<and> Date_now e (clock_reads w) - timestamp c < cacheTimeout"
  then show "getIdentityData e u w = (data c, w\<lparr>clock_reads := Suc (clock_reads w)\<rparr>)"
    by (simp add: getIdentityData_hit)
next
  assume a: "cache (api w) (''qoboto_'' @ u) = Some c
      \<and> cacheTimeout \<le> Date_now e (clock_reads w) - timestamp c"
  then have l: "fst (cache_lookup e (''qoboto_'' @ u) w) = None"
    and cl: "clock_reads (snd (cache_lookup e (''qoboto_'' @ u) w)) = Suc (clock_reads w)"
    by (simp_all add: cache_lookup_expired_clock)
  from getIdentityData_request[OF l]
  show "requests (snd (getIdentityData e u w)) =
      requests w @ [baseUrl (api w) @ ''/api/v1/Qoboto/GetDataValue/All?DataAccountUrl=''
                      @ encodeURIComponent e u]"
    by blast
  from getIdentityData_request[OF l] cl
  show "cache (api (snd (getIdentityData e u w))) (''qoboto_'' @ u) =
      (if fst (getIdentityData e u w) = JNull then None
       else Some \<lparr>data = fst (getIdentityData e u w),
                  timestamp = Date_now e (Suc (clock_reads w))\<rparr>)"
    by simp
next
  assume a: "cache (api w) (''qoboto_'' @ u) = None
        \<and> fetch e (length (requests w))
             (baseUrl (api w) @ ''/api/v1/Qoboto/GetDataValue/All?DataAccountUrl=''
                @ encodeURIComponent e u) = Some resp
        \<and> ok resp \<and> response_text resp = Some tx \<and> parse_response e tx = Some pv
        \<and> findMainSection pv = Inr m \<and> truthy m
        \<and> Date_now e (Suc (clock_reads w)) - Date_now e (clock_reads w) < cacheTimeout"
  then have rt: "fst (getIdentityData e u w) = m
     \<and> cache (api (snd (getIdentityData e u w))) (''qoboto_'' @ u) =
         Some \<lparr>data = m, timestamp = Date_now e (clock_reads w)\<rparr>
     \<and> requests (snd (getIdentityData e u w)) =
         requests w @ [baseUrl (api w) @ ''/api/v1/Qoboto/GetDataValue/All?DataAccountUrl=''
                         @ encodeURIComponent e u]
     \<and> fst (getIdentityData e u (snd (getIdentityData e u w))) = m
     \<and> requests (snd (getIdentityData e u (snd (getIdentityData e u w)))) =
         requests (snd (getIdentityData e u w))
     \<and> cache (api (snd (getIdentityData e u (snd (getIdentityData e u w))))) =
         cache (api (snd (getIdentityData e u w)))"
    using getIdentityData_round_trip[of w u e resp tx pv m] by blast
  from rt show "fst (getIdentityData e u w) = m" by blast
  from rt show "cache (api (snd (getIdentityData e u w))) (''qoboto_'' @ u) =
         Some \<lparr>data = m, timestamp = Date_now e (clock_reads w)\<rparr>" by blast
  from rt show "requests (snd (getIdentityData e u w)) =
         requests w @ [baseUrl (api w) @ ''/api/v1/Qoboto/GetDataValue/All?DataAccountUrl=''
                         @ encodeURIComponent e u]" by blast
  from rt show "fst (getIdentityData e u (snd (getIdentityData e u w))) = m" by blast
  from rt show "requests (snd (getIdentityData e u (snd (getIdentityData e u w)))) =
         requests (snd (getIdentityData e u w))" by blast
  from rt show "cache (api (snd (getIdentityData e u (snd (getIdentityData e u w))))) =
         cache (api (snd (getIdentityData e u w)))" by blast
qed

theorem cache_expiry_witness:
  "fst (cache_lookup (example_env example_sections) ''qoboto_sunstream.acme''
          (cache_store (example_env example_sections) ''qoboto_sunstream.acme'' main_section
             new_world)) = Some main_section
   \<and> cache (api stale_world) ''qoboto_sunstream.acme'' =
       Some \<lparr>data = main_section, timestamp = - 300000\<rparr>
   \<and> fst (cache_lookup (example_env example_sections) ''qoboto_sunstream.acme'' stale_world) = None
   \<and> cache (api (snd (cache_lookup (example_env example_sections) ''qoboto_sunstream.acme''
                        stale_world))) ''qoboto_sunstream.acme'' = None
   \<and> cache (api (snd (cache_lookup (example_env example_sections) ''qoboto_other.acme''
                        stale_world))) ''qoboto_sunstream.acme'' =
       Some \<lparr>data = main_section, timestamp = - 300000\<rparr>
   \<and> cache (api (snd (getIdentityData (example_env example_sections) ''other.acme''
                        stale_world))) ''qoboto_sunstream.acme'' =
       Some \<lparr>data = main_section, timestamp = - 300000\<rparr>
   \<and> fst (getIdentityData (example_env example_sections) ''sunstream.acme'' new_world) =
       main_section
   \<and> cache (api (snd (getIdentityData (example_env example_sections) ''sunstream.acme''
                        new_world))) ''qoboto_sunstream.acme'' =
       Some \<lparr>data = main_section, timestamp = 0\<rparr>
   \<and> requests (snd (getIdentityData (example_env example_sections) ''sunstream.acme''
                      new_world)) =
       [''https://localhost:7033/api/v1/Qoboto/GetDataValue/All?DataAccountUrl=sunstream.acme'']
   \<and> fst (getIdentityData (example_env example_sections) ''sunstream.acme''
            (snd (getIdentityData (example_env example_sections) ''sunstream.acme''
                    new_world))) = main_section
   \<and> requests (snd (getIdentityData (example_env example_sections) ''sunstream.acme''
            (snd (getIdentityData (example_env example_sections) ''sunstream.acme''
                    new_world)))) =
       [''https://localhost:7033/api/v1/Qoboto/GetDataValue/All?DataAccountUrl=sunstream.acme'']
   \<and> requests (snd (getIdentityData (example_env example_sections) ''sunstream.acme''
                      stale_world)) =
       [''https://localhost:7033/api/v1/Qoboto/GetDataValue/All?DataAccountUrl=sunstream.acme'']
   \<and> cache (api (snd (getIdentityData (example_env example_sections) ''sunstream.acme''
                        stale_world))) ''qoboto_sunstream.acme'' =
       Some \<lparr>data = main_section, timestamp = 1000\<rparr>"
proof -
  let ?e = "example_env example_sections"
  let ?k = "''qoboto_sunstream.acme''"
  let ?c = "\<lparr>data = main_section, timestamp = - 300000\<rparr>"
  let ?resp = "\<lparr>ok = True, response_text = Some ''body''\<rparr>"
  let ?url = "''https://localhost:7033/api/v1/Qoboto/GetDataValue/All?DataAccountUrl=sunstream.acme''"
  have s: "cache (api stale_world) ?k = Some ?c"
    by (simp add: stale_world_def)
  have s': "cache (api stale_world) (''qoboto_'' @ ''sunstream.acme'') = Some ?c"
    using s by simp
  have n: "cache (api new_world) (''qoboto_'' @ ''sunstream.acme'') = None"
    by (simp add: new_world_def new_QobotoApiService_def)
  have fresh: "Date_now ?e (Suc (clock_reads new_world)) - Date_now ?e (clock_reads new_world)
      < cacheTimeout"
    by (simp add: example_env_def new_world_def cacheTimeout_def)
  have old: "cacheTimeout \<le> Date_now ?e (clock_reads stale_world) - timestamp ?c"
    by (simp add: example_env_def stale_world_def new_world_def cacheTimeout_def)
  have now: "Date_now ?e (clock_reads new_world) = 0"
    "Date_now ?e (Suc (clock_reads stale_world)) = 1000"
    by (simp_all add: example_env_def stale_world_def new_world_def)
  have url: "baseUrl (api new_world) @ ''/api/v1/Qoboto/GetDataValue/All?DataAccountUrl=''
      @ encodeURIComponent ?e ''sunstream.acme'' = ?url"
    "baseUrl (api stale_world) @ ''/api/v1/Qoboto/GetDataValue/All?DataAccountUrl=''
      @ encodeURIComponent ?e ''sunstream.acme'' = ?url"
    by (simp_all add: new_world_def stale_world_def new_QobotoApiService_def example_env_def
        set_cache_def)
  have rq: "requests new_world = []" "requests stale_world = []"
    by (simp_all add: new_world_def stale_world_def)
  have f: "fetch ?e (length (requests new_world))
      (baseUrl (api new_world) @ ''/api/v1/Qoboto/GetDataValue/All?DataAccountUrl=''
         @ encodeURIComponent ?e ''sunstream.acme'') = Some ?resp"
    by (simp add: example_env_def)
  have r: "ok ?resp" "response_text ?resp = Some ''body''" by simp_all
  have p: "parse_response ?e ''body'' = Some example_sections"
    by (simp add: parse_response_def example_env_def example_sections_def)
  have t: "truthy main_section" by (simp add: main_section_def)
  have ne: "?k \<noteq> ''qoboto_other.acme''" "?k \<noteq> ''qoboto_'' @ ''other.acme''"
    by simp_all
  note A = cache_expiry[of ?e new_world ?k main_section ?c ?k "''sunstream.acme''" ?resp
      "''body''" example_sections main_section]
  note B = cache_expiry[of ?e stale_world ?k main_section ?c ?k "''sunstream.acme''" ?resp
      "''body''" example_sections main_section]
  note C = cache_expiry[of ?e stale_world "''qoboto_other.acme''" main_section ?c ?k
      "''other.acme''" ?resp "''body''" example_sections main_section]
  note A2 = A[THEN conjunct2, THEN conjunct1]
  note B3 = B[THEN conjunct2, THEN conjunct2, THEN conjunct1]
  note B4 = B[THEN conjunct2, THEN conjunct2, THEN conjunct2, THEN conjunct1]
  note C6 = C[THEN conjunct2, THEN conjunct2, THEN conjunct2, THEN conjunct2, THEN conjunct2, THEN conjunct1]
  note C7 = C[THEN conjunct2, THEN conjunct2, THEN conjunct2, THEN conjunct2, THEN conjunct2, THEN conjunct2, THEN conjunct1]
  note B9 = B[THEN conjunct2, THEN conjunct2, THEN conjunct2, THEN conjunct2, THEN conjunct2, THEN conjunct2, THEN conjunct2, THEN conjunct2, THEN conjunct1]
  note A10 = A[THEN conjunct2, THEN conjunct2, THEN conjunct2, THEN conjunct2, THEN conjunct2, THEN conjunct2, THEN conjunct2, THEN conjunct2, THEN conjunct2]
  from A2 fresh have 1: "fst (cache_lookup ?e ?k (cache_store ?e ?k main_section new_world)) =
     Some main_section" by blast
  from B3 s old have 2: "fst (cache_lookup ?e ?k stale_world) = None" by blast
  from B4 s old have 3: "cache (api (snd (cache_lookup ?e ?k stale_world))) ?k = None" by blast
  from C6 ne(1) s have 4: "cache (api (snd (cache_lookup ?e ''qoboto_other.acme'' stale_world))) ?k
      = Some ?c" by simp
  from C7 ne(2) s have 5: "cache (api (snd (getIdentityData ?e ''other.acme'' stale_world))) ?k
      = Some ?c" by simp
  from A10 n f r p example_sections_main t fresh
  have rt: "fst (getIdentityData ?e ''sunstream.acme'' new_world) = main_section
     \<and> cache (api (snd (getIdentityData ?e ''sunstream.acme'' new_world)))
          (''qoboto_'' @ ''sunstream.acme'') =
         Some \<lparr>data = main_section, timestamp = Date_now ?e (clock_reads new_world)\<rparr>
     \<and> requests (snd (getIdentityData ?e ''sunstream.acme'' new_world)) =
         requests new_world
           @ [baseUrl (api new_world) @ ''/api/v1/Qoboto/GetDataValue/All?DataAccountUrl=''
                @ encodeURIComponent ?e ''sunstream.acme'']
     \<and> fst (getIdentityData ?e ''sunstream.acme''
              (snd (getIdentityData ?e ''sunstream.acme'' new_world))) = main_section
     \<and> requests (snd (getIdentityData ?e ''sunstream.acme''
              (snd (getIdentityData ?e ''sunstream.acme'' new_world)))) =
         requests (snd (getIdentityData ?e ''sunstream.acme'' new_world))"
    by blast
  from rt now(1) url(1) rq(1)
  have 6: "fst (getIdentityData ?e ''sunstream.acme'' new_world) = main_section"
    and 7: "cache (api (snd (getIdentityData ?e ''sunstream.acme'' new_world))) ?k =
         Some \<lparr>data = main_section, timestamp = 0\<rparr>"
    and 8: "requests (snd (getIdentityData ?e ''sunstream.acme'' new_world)) = [?url]"
    and 9: "fst (getIdentityData ?e ''sunstream.acme''
              (snd (getIdentityData ?e ''sunstream.acme'' new_world))) = main_section"
    and 10: "requests (snd (getIdentityData ?e ''sunstream.acme''
              (snd (getIdentityData ?e ''sunstream.acme'' new_world)))) = [?url]"
    by simp_all
  from B9 s' old
  have ex: "requests (snd (getIdentityData ?e ''sunstream.acme'' stale_world)) =
          requests stale_world
            @ [baseUrl (api stale_world) @ ''/api/v1/Qoboto/GetDataValue/All?DataAccountUrl=''
                 @ encodeURIComponent ?e ''sunstream.acme'']
        \<and> cache (api (snd (getIdentityData ?e ''sunstream.acme'' stale_world)))
             (''qoboto_'' @ ''sunstream.acme'') =
            (if fst (getIdentityData ?e ''sunstream.acme'' stale_world) = JNull then None
             else Some \<lparr>data = fst (getIdentityData ?e ''sunstream.acme'' stale_world),
                        timestamp = Date_now ?e (Suc (clock_reads stale_world))\<rparr>)"
    by blast
  have mn: "main_section \<noteq> JNull" by (simp add: main_section_def)
  from ex stale_refetched now(2) url(2) rq(2) mn
  have 11: "requests (snd (getIdentityData ?e ''sunstream.acme'' stale_world)) = [?url]"
    and 12: "cache (api (snd (getIdentityData ?e ''sunstream.acme'' stale_world))) ?k =
       Some \<lparr>data = main_section, timestamp = 1000\<rparr>"
    by simp_all
  from 1 s 2 3 4 5 6 7 8 9 10 11 12 show ?thesis by (intro conjI)
qed


section \<open>OpIdResourceClass: the field accessors\<close>

lemma truthy_value_Some: "truthy_value p = Some v \<Longrightarrow> truthy v \<and> p = Some v"
  by (auto simp: truthy_value_def split: option.splits if_splits)

lemma truthy_value_SomeI: "truthy v \<Longrightarrow> truthy_value (Some v) = Some v"
  by (simp add: truthy_value_def)

lemma defaults_not_empty:
  "defaultLogoUrl \<noteq> []" "defaultDescription r \<noteq> []" "defaultBackgroundUrl \<noteq> []"
  by (simp_all add: defaultLogoUrl_def defaultDescription_def defaultBackgroundUrl_def)

lemma memoize_fields [simp]:
  "customOverrides (memoize k v r) = customOverrides r"
  "dataCache (memoize k v r) = (dataCache r)(k \<mapsto> v)"
  "opIdInfo (memoize k v r) = opIdInfo r"
  by (simp_all add: memoize_def)

lemma defaultDescription_memoize [simp]:
  "defaultDescription (memoize k v r) = defaultDescription r"
  by (simp add: defaultDescription_def)

lemma logoUrl_truthy: "truthy (fst (logoUrl e r w))"
  by (auto simp: logoUrl_def Let_def defaults_not_empty
      split: option.splits prod.splits sum.splits dest: truthy_value_Some)

lemma sectionMain1Description_truthy: "truthy (fst (sectionMain1Description e r w))"
  by (auto simp: sectionMain1Description_def Let_def defaults_not_empty
      split: option.splits prod.splits sum.splits dest: truthy_value_Some)

lemma sectionMain1Background2ImageUrl_truthy:
  "truthy (fst (sectionMain1Background2ImageUrl e r w))"
  by (auto simp: sectionMain1Background2ImageUrl_def Let_def defaults_not_empty
      split: option.splits prod.splits sum.splits dest: truthy_value_Some)

lemma logoUrl_override:
  "truthy_value (customOverrides r ''logoUrl'') = Some v \<Longrightarrow> logoUrl e r w = (v, r, w)"
  by (simp add: logoUrl_def)

lemma logoUrl_memo:
  "truthy_value (customOverrides r ''logoUrl'') = None \<Longrightarrow>
   truthy_value (dataCache r ''logoUrl'') = Some v \<Longrightarrow> logoUrl e r w = (v, r, w)"
  by (simp add: logoUrl_def)

lemma logoUrl_fallback:
  assumes "truthy_value (customOverrides r ''logoUrl'') = None"
    and "truthy_value (dataCache r ''logoUrl'') = None"
    and "\<forall>v. fst (api_getLogoUrl e (getSimpleIdentityUrl r) w) = Inr v \<longrightarrow> \<not> truthy v"
  shows "logoUrl e r w =
     (JStr defaultLogoUrl, memoize ''logoUrl'' (JStr defaultLogoUrl) r,
      snd (api_getLogoUrl e (getSimpleIdentityUrl r) w))"
  using assms by (auto simp: logoUrl_def Let_def split: prod.splits sum.splits)

lemma sectionMain1Description_override:
  "truthy_value (customOverrides r ''sectionMain1Description'') = Some v \<Longrightarrow>
     sectionMain1Description e r w = (v, r, w)"
  by (simp add: sectionMain1Description_def)

lemma sectionMain1Description_memo:
  "truthy_value (customOverrides r ''sectionMain1Description'') = None \<Longrightarrow>
   truthy_value (dataCache r ''sectionMain1Description'') = Some v \<Longrightarrow>
     sectionMain1Description e r w = (v, r, w)"
  by (simp add: sectionMain1Description_def)

lemma sectionMain1Description_fallback:
  assumes "truthy_value (customOverrides r ''sectionMain1Description'') = None"
    and "truthy_value (dataCache r ''sectionMain1Description'') = None"
    and "\<forall>v. fst (api_getSectionMain1Description e (getSimpleIdentityUrl r) w) = Inr v
           \<longrightarrow> \<not> truthy v"
  shows "sectionMain1Description e r w =
     (JStr (defaultDescription r),
      memoize ''sectionMain1Description'' (JStr (defaultDescription r)) r,
      snd (api_getSectionMain1Description e (getSimpleIdentityUrl r) w))"
  using assms by (auto simp: sectionMain1Description_def Let_def split: prod.splits sum.splits)

lemma sectionMain1Background2ImageUrl_override:
  "truthy_value (customOverrides r ''sectionMain1Background2ImageUrl'') = Some v \<Longrightarrow>
     sectionMain1Background2ImageUrl e r w = (v, r, w)"
  by (simp add: sectionMain1Background2ImageUrl_def)

lemma sectionMain1Background2ImageUrl_memo:
  "truthy_value (customOverrides r ''sectionMain1Background2ImageUrl'') = None \<Longrightarrow>
   truthy_value (dataCache r ''sectionMain1Background2ImageUrl'') = Some v \<Longrightarrow>
     sectionMain1Background2ImageUrl e r w = (v, r, w)"
  by (simp add: sectionMain1Background2ImageUrl_def)

lemma sectionMain1Background2ImageUrl_fallback:
  assumes "truthy_value (customOverrides r ''sectionMain1Background2ImageUrl'') = None"
    and "truthy_value (dataCache r ''sectionMain1Background2ImageUrl'') = None"
    and "\<not> truthy (fst (api_getSectionMain1Background2ImageUrl e (getSimpleIdentityUrl r) w))"
  shows "sectionMain1Background2ImageUrl e r w =
     (JStr defaultBackgroundUrl,
      memoize ''sectionMain1Background2ImageUrl'' (JStr defaultBackgroundUrl) r,
      snd (api_getSectionMain1Background2ImageUrl e (getSimpleIdentityUrl r) w))"
  using assms
  by (auto simp: sectionMain1Background2ImageUrl_def Let_def split: prod.splits)

lemma api_absent:
  assumes "fst (getIdentityData e u w) = JNull"
  shows "fst (api_getLogoUrl e u w) = Inr JNull"
    and "fst (api_getSectionMain1Description e u w) = Inr JNull"
    and "fst (api_getSectionMain1Background2ImageUrl e u w) = JNull"
  using assms
  by (cases "getIdentityData e u w";
      simp add: api_getLogoUrl_def api_getSectionMain1Description_def
        api_getSectionMain1Background2ImageUrl_def get_prop_def or_null_def truthy_value_def)+

lemma example_record_constructed:
  "OpIdResourceFactory_createByIdentityUrl new_NetworkNameServiceClass ''sunstream.acme'' =
     Some example_record"
proof -
  have "OpIdInfoFactory_createByIdentityUrl new_NetworkNameServiceClass ''sunstream.acme'' =
      Some (OpIdInfoFactory_createByIdentityName new_NetworkNameServiceClass ''sunstream'')"
    by code_simp
  then show ?thesis
    by (simp add: OpIdResourceFactory_createByIdentityUrl_def example_record_def)
qed

lemma example_record_fresh:
  "truthy_value (customOverrides example_record k) = None"
  "truthy_value (dataCache example_record k) = None"
  by (simp_all add: example_record_def new_OpIdResourceClass_def truthy_value_def)

lemma offline_absent: "fst (getIdentityData offline_env u new_world) = JNull"
  by (rule getIdentityData_rejected)
    (simp_all add: new_world_def new_QobotoApiService_def offline_env_def)

text \<open>
  Claim C2. Each of the three field accessors of a record returns a truthy value (so
  neither \<^verbatim>\<open>null\<close> nor an error), whatever the state of the record and of the world.
  When the field has no override and no memoized value in force, and the data client
  returns no truthy value for it (it returns \<^verbatim>\<open>null\<close>, as when no main section exists
  or the request fails, or it raises), the accessor returns the field's default, stores
  it in the record's memo, and any later call on that record returns the default
  again and leaves the world unchanged: it makes no request.
\<close>

theorem accessors_return_value_or_default:
  "truthy (fst (logoUrl e r w))
   \<and> truthy (fst (sectionMain1Description e r w))
   \<and> truthy (fst (sectionMain1Background2ImageUrl e r w))
   \<and> (truthy_value (customOverrides r ''logoUrl'') = None
        \<and> truthy_value (dataCache r ''logoUrl'') = None
        \<and> (\<forall>v. fst (api_getLogoUrl e (getSimpleIdentityUrl r) w) = Inr v \<longrightarrow> \<not> truthy v)
      \<longrightarrow> (\<exists>r1 w1. logoUrl e r w = (JStr defaultLogoUrl, r1, w1)
             \<and> dataCache r1 ''logoUrl'' = Some (JStr defaultLogoUrl)
             \<and> (\<forall>w2. logoUrl e r1 w2 = (JStr defaultLogoUrl, r1, w2))))
   \<and> (truthy_value (customOverrides r ''sectionMain1Description'') = None
        \<and> truthy_value (dataCache r ''sectionMain1Description'') = None
        \<and> (\<forall>v. fst (api_getSectionMain1Description e (getSimpleIdentityUrl r) w) = Inr v
               \<longrightarrow> \<not> truthy v)
      \<longrightarrow> (\<exists>r1 w1. sectionMain1Description e r w = (JStr (defaultDescription r), r1, w1)
             \<and> dataCache r1 ''sectionMain1Description'' = Some (JStr (defaultDescription r))
             \<and> (\<forall>w2. sectionMain1Description e r1 w2 = (JStr (defaultDescription r), r1, w2))))
   \<and> (truthy_value (customOverrides r ''sectionMain1Background2ImageUrl'') = None
        \<and> truthy_value (dataCache r ''sectionMain1Background2ImageUrl'') = None
        \<and> \<not> truthy (fst (api_getSectionMain1Background2ImageUrl e (getSimpleIdentityUrl r) w))
      \<longrightarrow> (\<exists>r1 w1. sectionMain1Background2ImageUrl e r w = (JStr defaultBackgroundUrl, r1, w1)
             \<and> dataCache r1 ''sectionMain1Background2ImageUrl'' = Some (JStr defaultBackgroundUrl)
             \<and> (\<forall>w2. sectionMain1Background2ImageUrl e r1 w2 =
                        (JStr defaultBackgroundUrl, r1, w2))))"
proof (intro conjI impI)
  show "truthy (fst (logoUrl e r w))" by (rule logoUrl_truthy)
  show "truthy (fst (sectionMain1Description e r w))" by (rule sectionMain1Description_truthy)
  show "truthy (fst (sectionMain1Background2ImageUrl e r w))"
    by (rule sectionMain1Background2ImageUrl_truthy)
next
  let ?d = "JStr defaultLogoUrl"
  let ?r1 = "memoize ''logoUrl'' ?d r"
  assume a: "truthy_value (customOverrides r ''logoUrl'') = None
        \<and> truthy_value (dataCache r ''logoUrl'') = None
        \<and> (\<forall>v. fst (api_getLogoUrl e (getSimpleIdentityUrl r) w) = Inr v \<longrightarrow> \<not> truthy v)"
  then have "logoUrl e r w = (?d, ?r1, snd (api_getLogoUrl e (getSimpleIdentityUrl r) w))"
    by (simp add: logoUrl_fallback)
  moreover have "dataCache ?r1 ''logoUrl'' = Some ?d" by simp
  moreover have "\<forall>w2. logoUrl e ?r1 w2 = (?d, ?r1, w2)"
    using a by (simp add: logoUrl_memo truthy_value_SomeI defaults_not_empty)
  ultimately show "\<exists>r1 w1. logoUrl e r w = (?d, r1, w1) \<and> dataCache r1 ''logoUrl'' = Some ?d
      \<and> (\<forall>w2. logoUrl e r1 w2 = (?d, r1, w2))"
    by blast
next
  let ?d = "JStr (defaultDescription r)"
  let ?r1 = "memoize ''sectionMain1Description'' ?d r"
  assume a: "truthy_value (customOverrides r ''sectionMain1Description'') = None
        \<and> truthy_value (dataCache r ''sectionMain1Description'') = None
        \<and> (\<forall>v. fst (api_getSectionMain1Description e (getSimpleIdentityUrl r) w) = Inr v
               \<longrightarrow> \<not> truthy v)"
  then have "sectionMain1Description e r w =
      (?d, ?r1, snd (api_getSectionMain1Description e (getSimpleIdentityUrl r) w))"
    by (simp add: sectionMain1Description_fallback)
  moreover have "dataCache ?r1 ''sectionMain1Description'' = Some ?d" by simp
  moreover have "\<forall>w2. sectionMain1Description e ?r1 w2 = (?d, ?r1, w2)"
    using a by (simp add: sectionMain1Description_memo truthy_value_SomeI defaults_not_empty)
  ultimately show "\<exists>r1 w1. sectionMain1Description e r w = (?d, r1, w1)
      \<and> dataCache r1 ''sectionMain1Description'' = Some ?d
      \<and> (\<forall>w2. sectionMain1Description e r1 w2 = (?d, r1, w2))"
    by blast
next
  let ?d = "JStr defaultBackgroundUrl"
  let ?r1 = "memoize ''sectionMain1Background2ImageUrl'' ?d r"
  assume a: "truthy_value (customOverrides r ''sectionMain1Background2ImageUrl'') = None
        \<and> truthy_value (dataCache r ''sectionMain1Background2ImageUrl'') = None
        \<and> \<not> truthy (fst (api_getSectionMain1Background2ImageUrl e (getSimpleIdentityUrl r) w))"
  then have "sectionMain1Background2ImageUrl e r w =
      (?d, ?r1, snd (api_getSectionMain1Background2ImageUrl e (getSimpleIdentityUrl r) w))"
    by (simp add: sectionMain1Background2ImageUrl_fallback)
  moreover have "dataCache ?r1 ''sectionMain1Background2ImageUrl'' = Some ?d" by simp
  moreover have "\<forall>w2. sectionMain1Background2ImageUrl e ?r1 w2 = (?d, ?r1, w2)"
    using a
    by (simp add: sectionMain1Background2ImageUrl_memo truthy_value_SomeI defaults_not_empty)
  ultimately show "\<exists>r1 w1. sectionMain1Background2ImageUrl e r w = (?d, r1, w1)
      \<and> dataCache r1 ''sectionMain1Background2ImageUrl'' = Some ?d
      \<and> (\<forall>w2. sectionMain1Background2ImageUrl e r1 w2 = (?d, r1, w2))"
    by blast
qed

theorem accessors_return_value_or_default_witness:
  "OpIdResourceFactory_createByIdentityUrl new_NetworkNameServiceClass ''sunstream.acme'' =
     Some example_record
   \<and> (\<exists>r1 w1. logoUrl offline_env example_record new_world = (JStr defaultLogoUrl, r1, w1)
         \<and> dataCache r1 ''logoUrl'' = Some (JStr defaultLogoUrl)
         \<and> (\<forall>w2. logoUrl offline_env r1 w2 = (JStr defaultLogoUrl, r1, w2)))
   \<and> (\<exists>r1 w1. sectionMain1Description offline_env example_record new_world =
                 (JStr (defaultDescription example_record), r1, w1)
         \<and> dataCache r1 ''sectionMain1Description'' =
             Some (JStr (defaultDescription example_record))
         \<and> (\<forall>w2. sectionMain1Description offline_env r1 w2 =
                    (JStr (defaultDescription example_record), r1, w2)))
   \<and> (\<exists>r1 w1. sectionMain1Background2ImageUrl offline_env example_record new_world =
                 (JStr defaultBackgroundUrl, r1, w1)
         \<and> dataCache r1 ''sectionMain1Background2ImageUrl'' = Some (JStr defaultBackgroundUrl)
         \<and> (\<forall>w2. sectionMain1Background2ImageUrl offline_env r1 w2 =
                    (JStr defaultBackgroundUrl, r1, w2)))"
proof -
  note T = accessors_return_value_or_default[of offline_env example_record new_world]
  note absent = api_absent[OF offline_absent[of "getSimpleIdentityUrl example_record"]]
  have 1: "\<forall>v. fst (api_getLogoUrl offline_env (getSimpleIdentityUrl example_record) new_world)
      = Inr v \<longrightarrow> \<not> truthy v"
    using absent(1) by auto
  have 2: "\<forall>v. fst (api_getSectionMain1Description offline_env
      (getSimpleIdentityUrl example_record) new_world) = Inr v \<longrightarrow> \<not> truthy v"
    using absent(2) by auto
  have 3: "\<not> truthy (fst (api_getSectionMain1Background2ImageUrl offline_env
      (getSimpleIdentityUrl example_record) new_world))"
    using absent(3) by simp
  from T example_record_fresh 1 2 3 example_record_constructed show ?thesis by blast
qed


section \<open>OpIdResourceClass: manual overrides\<close>

lemma logoUrl_keeps_overrides:
  "logoUrl e r w = (v, r', w') \<Longrightarrow> customOverrides r' = customOverrides r"
  by (auto simp: logoUrl_def Let_def split: option.splits prod.splits sum.splits if_splits)

lemma sectionMain1Description_keeps_overrides:
  "sectionMain1Description e r w = (v, r', w') \<Longrightarrow> customOverrides r' = customOverrides r"
  by (auto simp: sectionMain1Description_def Let_def
      split: option.splits prod.splits sum.splits if_splits)

lemma sectionMain1Background2ImageUrl_keeps_overrides:
  "sectionMain1Background2ImageUrl e r w = (v, r', w') \<Longrightarrow>
     customOverrides r' = customOverrides r"
  by (auto simp: sectionMain1Background2ImageUrl_def Let_def
      split: option.splits prod.splits if_splits)

lemma getAllMainData_keeps_overrides:
  "getAllMainData e r w = (m, r', w') \<Longrightarrow> customOverrides r' = customOverrides r"
  unfolding getAllMainData_def Let_def
  by (auto split: prod.splits if_splits
      dest!: logoUrl_keeps_overrides sectionMain1Description_keeps_overrides
        sectionMain1Background2ImageUrl_keeps_overrides)

lemma clearCache_keeps_overrides:
  "clearCache k r w = (r', w') \<Longrightarrow> customOverrides r' = customOverrides r"
  by (auto simp: clearCache_def Let_def split: option.splits if_splits)

lemma run_call_keeps_override:
  assumes "\<not> overrides_field c k"
  shows "customOverrides (fst (run_call e c (r, w))) k = customOverrides r k"
proof (cases c)
  case Call_logoUrl
  then show ?thesis
    using logoUrl_keeps_overrides[of e r w] by (cases "logoUrl e r w") auto
next
  case Call_sectionMain1Description
  then show ?thesis
    using sectionMain1Description_keeps_overrides[of e r w]
    by (cases "sectionMain1Description e r w") auto
next
  case Call_sectionMain1Background2ImageUrl
  then show ?thesis
    using sectionMain1Background2ImageUrl_keeps_overrides[of e r w]
    by (cases "sectionMain1Background2ImageUrl e r w") auto
next
  case Call_getAllMainData
  then show ?thesis
    using getAllMainData_keeps_overrides[of e r w] by (cases "getAllMainData e r w") auto
next
  case (Call_setCustomLogoUrl v)
  with assms show ?thesis by (simp add: setCustomLogoUrl_def)
next
  case (Call_setCustomDescription v)
  with assms show ?thesis by (simp add: setCustomDescription_def)
next
  case (Call_setCustomBackgroundImageUrl v)
  with assms show ?thesis by (simp add: setCustomBackgroundImageUrl_def)
next
  case (Call_clearCache d)
  then show ?thesis
    using clearCache_keeps_overrides[of d r w] by (cases "clearCache d r w") auto
next
  case Call_clearOverrides
  with assms show ?thesis by simp
qed

lemma run_calls_keeps_override:
  "\<forall>c\<in>set cs. \<not> overrides_field c k \<Longrightarrow>
     customOverrides (fst (run_calls e cs s)) k = customOverrides (fst s) k"
proof (induction cs arbitrary: s)
  case Nil
  then show ?case by simp
next
  case (Cons c cs)
  obtain r w where s: "s = (r, w)" by (cases s)
  from Cons.prems have "\<not> overrides_field c k" and rest: "\<forall>c\<in>set cs. \<not> overrides_field c k"
    by simp_all
  then have "customOverrides (fst (run_call e c (r, w))) k = customOverrides r k"
    using run_call_keeps_override by blast
  with Cons.IH[OF rest, of "run_call e c s"] s show ?case by simp
qed

lemma getSimpleIdentityUrl_cong:
  "opIdInfo r1 = opIdInfo r2 \<Longrightarrow> getSimpleIdentityUrl r1 = getSimpleIdentityUrl r2"
  by (simp add: getSimpleIdentityUrl_def)

lemma defaultDescription_cong:
  "opIdInfo r1 = opIdInfo r2 \<Longrightarrow> defaultDescription r1 = defaultDescription r2"
  by (simp add: defaultDescription_def)

lemma logoUrl_override_unset:
  assumes "truthy_value (customOverrides r1 ''logoUrl'') = None"
    and "truthy_value (customOverrides r2 ''logoUrl'') = None"
    and "dataCache r1 = dataCache r2" and "opIdInfo r1 = opIdInfo r2"
  shows "fst (logoUrl e r1 w) = fst (logoUrl e r2 w)
     \<and> snd (snd (logoUrl e r1 w)) = snd (snd (logoUrl e r2 w))
     \<and> dataCache (fst (snd (logoUrl e r1 w))) = dataCache (fst (snd (logoUrl e r2 w)))"
  using assms getSimpleIdentityUrl_cong[OF assms(4)]
  by (simp add: logoUrl_def Let_def split: option.splits prod.splits sum.splits)

lemma sectionMain1Description_override_unset:
  assumes "truthy_value (customOverrides r1 ''sectionMain1Description'') = None"
    and "truthy_value (customOverrides r2 ''sectionMain1Description'') = None"
    and "dataCache r1 = dataCache r2" and "opIdInfo r1 = opIdInfo r2"
  shows "fst (sectionMain1Description e r1 w) = fst (sectionMain1Description e r2 w)
     \<and> snd (snd (sectionMain1Description e r1 w)) = snd (snd (sectionMain1Description e r2 w))
     \<and> dataCache (fst (snd (sectionMain1Description e r1 w))) =
         dataCache (fst (snd (sectionMain1Description e r2 w)))"
  using assms getSimpleIdentityUrl_cong[OF assms(4)] defaultDescription_cong[OF assms(4)]
  by (simp add: sectionMain1Description_def Let_def split: option.splits prod.splits sum.splits)

lemma sectionMain1Background2ImageUrl_override_unset:
  assumes "truthy_value (customOverrides r1 ''sectionMain1Background2ImageUrl'') = None"
    and "truthy_value (customOverrides r2 ''sectionMain1Background2ImageUrl'') = None"
    and "dataCache r1 = dataCache r2" and "opIdInfo r1 = opIdInfo r2"
  shows "fst (sectionMain1Background2ImageUrl e r1 w) =
           fst (sectionMain1Background2ImageUrl e r2 w)
     \<and> snd (snd (sectionMain1Background2ImageUrl e r1 w)) =
         snd (snd (sectionMain1Background2ImageUrl e r2 w))
     \<and> dataCache (fst (snd (sectionMain1Background2ImageUrl e r1 w))) =
         dataCache (fst (snd (sectionMain1Background2ImageUrl e r2 w)))"
  using assms getSimpleIdentityUrl_cong[OF assms(4)]
  by (simp add: sectionMain1Background2ImageUrl_def Let_def split: option.splits prod.splits)

lemma falsy_override_unset:
  assumes "\<not> truthy v"
  shows "truthy_value (Some v) = None" and "truthy_value None = None"
  using assms by (simp_all add: truthy_value_def)


text \<open>
  Claim C4, as the specification states it, fails for an override that is not truthy:
  after \<^verbatim>\<open>setCustomLogoUrl("")\<close> the accessor does not return the empty string but the
  logo URL of the fetched main section.
\<close>

theorem empty_override_does_not_win:
  "fst (logoUrl (example_env (JArr [main_section]))
          (setCustomLogoUrl (JStr []) example_record) new_world) = JStr ''L''
   \<and> fst (logoUrl (example_env (JArr [main_section]))
          (setCustomLogoUrl (JStr []) example_record) new_world) \<noteq> JStr []"
  by (simp add: logoUrl_def setCustomLogoUrl_def example_record_def new_OpIdResourceClass_def
      api_getLogoUrl_def example_defs split: prod.splits)

text \<open>
  Claim C4, amended. For every record, every field and every truthy override value (a
  non-empty string, for one) set through the field's setter: after any sequence of
  calls on the record that contains neither \<^verbatim>\<open>clearOverrides\<close> nor the setter of that
  field, the field's accessor returns the override value and leaves the record and the
  world unchanged, so neither the memo nor a request is consulted. An override value
  that is not truthy is treated as not set: the accessor called after the setter
  returns the same value, leaves the same world and the same memo as it does on the
  record without an override of that field.
\<close>

theorem override_wins_iff_truthy:
  "(truthy v \<longrightarrow>
      ((\<forall>c\<in>set cs. \<not> overrides_field c ''logoUrl'') \<longrightarrow>
        (let (r', w') = run_calls e cs (setCustomLogoUrl v r, w)
         in logoUrl e r' w' = (v, r', w')))
     \<and> ((\<forall>c\<in>set cs. \<not> overrides_field c ''sectionMain1Description'') \<longrightarrow>
        (let (r', w') = run_calls e cs (setCustomDescription v r, w)
         in sectionMain1Description e r' w' = (v, r', w')))
     \<and> ((\<forall>c\<in>set cs. \<not> overrides_field c ''sectionMain1Background2ImageUrl'') \<longrightarrow>
        (let (r', w') = run_calls e cs (setCustomBackgroundImageUrl v r, w)
         in sectionMain1Background2ImageUrl e r' w' = (v, r', w'))))
   \<and> (\<not> truthy v \<longrightarrow>
      (let r1 = setCustomLogoUrl v r;
           r0 = r\<lparr>customOverrides := (customOverrides r)(''logoUrl'' := None)\<rparr>
       in fst (logoUrl e r1 w) = fst (logoUrl e r0 w)
          \<and> snd (snd (logoUrl e r1 w)) = snd (snd (logoUrl e r0 w))
          \<and> dataCache (fst (snd (logoUrl e r1 w))) = dataCache (fst (snd (logoUrl e r0 w))))
     \<and> (let r1 = setCustomDescription v r;
             r0 = r\<lparr>customOverrides := (customOverrides r)(''sectionMain1Description'' := None)\<rparr>
         in fst (sectionMain1Description e r1 w) = fst (sectionMain1Description e r0 w)
            \<and> snd (snd (sectionMain1Description e r1 w)) =
                snd (snd (sectionMain1Description e r0 w))
            \<and> dataCache (fst (snd (sectionMain1Description e r1 w))) =
                dataCache (fst (snd (sectionMain1Description e r0 w))))
     \<and> (let r1 = setCustomBackgroundImageUrl v r;
             r0 = r\<lparr>customOverrides :=
                        (customOverrides r)(''sectionMain1Background2ImageUrl'' := None)\<rparr>
         in fst (sectionMain1Background2ImageUrl e r1 w) =
              fst (sectionMain1Background2ImageUrl e r0 w)
            \<and> snd (snd (sectionMain1Background2ImageUrl e r1 w)) =
                snd (snd (sectionMain1Background2ImageUrl e r0 w))
            \<and> dataCache (fst (snd (sectionMain1Background2ImageUrl e r1 w))) =
                dataCache (fst (snd (sectionMain1Background2ImageUrl e r0 w)))))"
proof (intro conjI impI)
  assume t: "truthy v" and "\<forall>c\<in>set cs. \<not> overrides_field c ''logoUrl''"
  then have "customOverrides (fst (run_calls e cs (setCustomLogoUrl v r, w))) ''logoUrl'' = Some v"
    using run_calls_keeps_override[of cs "''logoUrl''" e "(setCustomLogoUrl v r, w)"]
    by (simp add: setCustomLogoUrl_def)
  with t show "let (r', w') = run_calls e cs (setCustomLogoUrl v r, w)
      in logoUrl e r' w' = (v, r', w')"
    by (cases "run_calls e cs (setCustomLogoUrl v r, w)")
      (simp add: logoUrl_override truthy_value_SomeI)
next
  assume t: "truthy v" and "\<forall>c\<in>set cs. \<not> overrides_field c ''sectionMain1Description''"
  then have "customOverrides (fst (run_calls e cs (setCustomDescription v r, w)))
      ''sectionMain1Description'' = Some v"
    using run_calls_keeps_override[of cs "''sectionMain1Description''" e
        "(setCustomDescription v r, w)"]
    by (simp add: setCustomDescription_def)
  with t show "let (r', w') = run_calls e cs (setCustomDescription v r, w)
      in sectionMain1Description e r' w' = (v, r', w')"
    by (cases "run_calls e cs (setCustomDescription v r, w)")
      (simp add: sectionMain1Description_override truthy_value_SomeI)
next
  assume t: "truthy v"
    and "\<forall>c\<in>set cs. \<not> overrides_field c ''sectionMain1Background2ImageUrl''"
  then have "customOverrides (fst (run_calls e cs (setCustomBackgroundImageUrl v r, w)))
      ''sectionMain1Background2ImageUrl'' = Some v"
    using run_calls_keeps_override[of cs "''sectionMain1Background2ImageUrl''" e
        "(setCustomBackgroundImageUrl v r, w)"]
    by (simp add: setCustomBackgroundImageUrl_def)
  with t show "let (r', w') = run_calls e cs (setCustomBackgroundImageUrl v r, w)
      in sectionMain1Background2ImageUrl e r' w' = (v, r', w')"
    by (cases "run_calls e cs (setCustomBackgroundImageUrl v r, w)")
      (simp add: sectionMain1Background2ImageUrl_override truthy_value_SomeI)
next
  assume f: "\<not> truthy v"
  show "let r1 = setCustomLogoUrl v r;
            r0 = r\<lparr>customOverrides := (customOverrides r)(''logoUrl'' := None)\<rparr>
        in fst (logoUrl e r1 w) = fst (logoUrl e r0 w)
           \<and> snd (snd (logoUrl e r1 w)) = snd (snd (logoUrl e r0 w))
           \<and> dataCache (fst (snd (logoUrl e r1 w))) = dataCache (fst (snd (logoUrl e r0 w)))"
    unfolding Let_def
    by (rule logoUrl_override_unset)
      (simp_all add: setCustomLogoUrl_def falsy_override_unset[OF f])
  show "let r1 = setCustomDescription v r;
            r0 = r\<lparr>customOverrides := (customOverrides r)(''sectionMain1Description'' := None)\<rparr>
        in fst (sectionMain1Description e r1 w) = fst (sectionMain1Description e r0 w)
           \<and> snd (snd (sectionMain1Description e r1 w)) =
               snd (snd (sectionMain1Description e r0 w))
           \<and> dataCache (fst (snd (sectionMain1Description e r1 w))) =
               dataCache (fst (snd (sectionMain1Description e r0 w)))"
    unfolding Let_def
    by (rule sectionMain1Description_override_unset)
      (simp_all add: setCustomDescription_def falsy_override_unset[OF f])
  show "let r1 = setCustomBackgroundImageUrl v r;
            r0 = r\<lparr>customOverrides :=
                       (customOverrides r)(''sectionMain1Background2ImageUrl'' := None)\<rparr>
        in fst (sectionMain1Background2ImageUrl e r1 w) =
             fst (sectionMain1Background2ImageUrl e r0 w)
           \<and> snd (snd (sectionMain1Background2ImageUrl e r1 w)) =
               snd (snd (sectionMain1Background2ImageUrl e r0 w))
           \<and> dataCache (fst (snd (sectionMain1Background2ImageUrl e r1 w))) =
               dataCache (fst (snd (sectionMain1Background2ImageUrl e r0 w)))"
    unfolding Let_def
    by (rule sectionMain1Background2ImageUrl_override_unset)
      (simp_all add: setCustomBackgroundImageUrl_def falsy_override_unset[OF f])
qed

theorem override_wins_iff_truthy_witness:
  "truthy (JStr ''custom'') \<and> \<not> truthy (JStr [])
   \<and> (let (r', w') = run_calls (example_env (JArr [main_section])) example_calls
                       (setCustomLogoUrl (JStr ''custom'') example_record, new_world)
      in logoUrl (example_env (JArr [main_section])) r' w' = (JStr ''custom'', r', w'))
   \<and> (let (r', w') = run_calls (example_env (JArr [main_section])) example_calls
                       (setCustomDescription (JStr ''custom'') example_record, new_world)
      in sectionMain1Description (example_env (JArr [main_section])) r' w' =
           (JStr ''custom'', r', w'))
   \<and> (let (r', w') = run_calls (example_env (JArr [main_section])) example_calls
                       (setCustomBackgroundImageUrl (JStr ''custom'') example_record, new_world)
      in sectionMain1Background2ImageUrl (example_env (JArr [main_section])) r' w' =
           (JStr ''custom'', r', w'))
   \<and> fst (logoUrl (example_env (JArr [main_section]))
            (setCustomLogoUrl (JStr []) example_record) new_world) =
       fst (logoUrl (example_env (JArr [main_section]))
            (example_record\<lparr>customOverrides :=
               (customOverrides example_record)(''logoUrl'' := None)\<rparr>) new_world)
   \<and> fst (sectionMain1Description (example_env (JArr [main_section]))
            (setCustomDescription (JStr []) example_record) new_world) =
       fst (sectionMain1Description (example_env (JArr [main_section]))
            (example_record\<lparr>customOverrides :=
               (customOverrides example_record)(''sectionMain1Description'' := None)\<rparr>)
            new_world)
   \<and> fst (sectionMain1Background2ImageUrl (example_env (JArr [main_section]))
            (setCustomBackgroundImageUrl (JStr []) example_record) new_world) =
       fst (sectionMain1Background2ImageUrl (example_env (JArr [main_section]))
            (example_record\<lparr>customOverrides :=
               (customOverrides example_record)(''sectionMain1Background2ImageUrl'' := None)\<rparr>)
            new_world)"
proof -
  let ?e = "example_env (JArr [main_section])"
  have t: "truthy (JStr ''custom'')" by simp
  have f: "\<not> truthy (JStr [])" by simp
  have c: "\<forall>c\<in>set example_calls. \<not> overrides_field c k" for k
    by (simp add: example_calls_def)
  note T = override_wins_iff_truthy[of "JStr ''custom''" example_calls ?e example_record
      new_world, THEN conjunct1, THEN mp, OF t]
  note F = override_wins_iff_truthy[of "JStr []" example_calls ?e example_record
      new_world, THEN conjunct2, THEN mp, OF f, unfolded Let_def]
  from T c have T': "(let (r', w') = run_calls ?e example_calls
                       (setCustomLogoUrl (JStr ''custom'') example_record, new_world)
      in logoUrl ?e r' w' = (JStr ''custom'', r', w'))
   \<and> (let (r', w') = run_calls ?e example_calls
                       (setCustomDescription (JStr ''custom'') example_record, new_world)
      in sectionMain1Description ?e r' w' = (JStr ''custom'', r', w'))
   \<and> (let (r', w') = run_calls ?e example_calls
                       (setCustomBackgroundImageUrl (JStr ''custom'') example_record, new_world)
      in sectionMain1Background2ImageUrl ?e r' w' = (JStr ''custom'', r', w'))"
    by blast
  from t f T' F show ?thesis by blast
qed

end
